theory Spec2Isabelle
  imports Complex_Main "HOL-Library.Sublist"
begin

section \<open>Python values handled by the tools\<close>

text \<open>
  The module \<^verbatim>\<open>nanobot/agent/tools/solana.py\<close> holds six tools. Each \<^verbatim>\<open>execute\<close>
  makes one HTTP request (or reads a local file) and returns a Python \<^verbatim>\<open>str\<close>.

  A Python \<^verbatim>\<open>float\<close> is a binary64 number: one of the rationals \<open>m * 2 ^ e\<close> with
  \<open>\<bar>m\<bar> < 2 ^ 53\<close> and \<open>- 1074 \<le> e \<le> 971\<close>, an infinity, or a NaN (the sign of zero is not
  modelled). The two divisions the balance tool can reach are operations of the runtime
  (see \<open>world\<close> below).
\<close>

definition binary64 :: "rat \<Rightarrow> bool" where
  "binary64 x =
     (\<exists>m :: int. \<exists>k :: nat. \<bar>m\<bar> < 2 ^ 53 \<and>
        ((k \<le> 1074 \<and> x = of_int m / 2 ^ k) \<or> (k \<le> 971 \<and> x = of_int m * 2 ^ k)))"

typedef finite64 = "{x :: rat. binary64 x}"
  by (rule exI [of _ 0]) (simp add: binary64_def exI [of _ 0])

datatype pyfloat = Finite finite64 | PosInf | NegInf | NaN

text \<open>The rational a finite float stands for, and the float of a binary64 rational.\<close>

fun float_value :: "pyfloat \<Rightarrow> rat option" where
  "float_value (Finite x) = Some (Rep_finite64 x)"
| "float_value f = None"

definition float_of :: "rat \<Rightarrow> pyfloat" where
  "float_of q = Finite (Abs_finite64 q)"

text \<open>\<open>x\<close> is a binary64 value nearest to \<open>q\<close>: what a correctly rounded operation with the
  exact result \<open>q\<close> returns (CPython rounds \<^verbatim>\<open>int / int\<close> correctly).\<close>

definition nearest64 :: "rat \<Rightarrow> rat \<Rightarrow> bool" where
  "nearest64 q x = (binary64 x \<and> (\<forall>y. binary64 y \<longrightarrow> \<bar>x - q\<bar> \<le> \<bar>y - q\<bar>))"

text \<open>
  The values \<^verbatim>\<open>json.loads\<close> builds and \<^verbatim>\<open>json.dumps\<close> accepts: \<^verbatim>\<open>None\<close>, \<^verbatim>\<open>bool\<close>,
  \<^verbatim>\<open>int\<close> (unbounded), \<^verbatim>\<open>float\<close>, \<^verbatim>\<open>str\<close>, \<^verbatim>\<open>list\<close> and \<^verbatim>\<open>dict\<close> with string keys.
  A dict is an association list in insertion order; a lookup takes the first entry of a
  key (a dict built by \<^verbatim>\<open>json.loads\<close> lists every key once).
\<close>

datatype json =
    JNull
  | JBool bool
  | JInt int
  | JFloat pyfloat
  | JStr string
  | JList "json list"
  | JDict "(string \<times> json) list"

text \<open>
  A text the module handles is either produced by \<^verbatim>\<open>json.dumps(j)\<close>, or taken as it is
  from a response body or a file. \<open>Dumps j\<close> stands for the text \<^verbatim>\<open>json.dumps(j)\<close>:
  the serialisation itself is the library's and is not unfolded.
\<close>

datatype pytext = Dumps json | Raw string

text \<open>
  Exceptions that are instances of \<^verbatim>\<open>Exception\<close>. Two handlers of the module tell
  \<^verbatim>\<open>urllib.error.HTTPError\<close> (with its status code) from the rest, so the model does too.
  \<open>HTTPError code msg body\<close> carries the status code, \<^verbatim>\<open>str(e)\<close> and the body of the error
  response; \<open>OtherException msg\<close> carries \<^verbatim>\<open>str(e)\<close>.
\<close>

datatype exn = HTTPError int string string | OtherException string

fun str_exn :: "exn \<Rightarrow> string" where
  "str_exn (HTTPError code msg body) = msg"
| "str_exn (OtherException msg) = msg"

definition try_except :: "exn + 'a \<Rightarrow> (exn \<Rightarrow> exn + 'a) \<Rightarrow> exn + 'a" where
  "try_except body handler = (case body of Inr v \<Rightarrow> Inr v | Inl e \<Rightarrow> handler e)"

definition and_then :: "exn + 'a \<Rightarrow> ('a \<Rightarrow> exn + 'b) \<Rightarrow> exn + 'b" where
  "and_then m f = (case m of Inl e \<Rightarrow> Inl e | Inr v \<Rightarrow> f v)"

subsection \<open>The operations of Python the tools apply to parsed JSON\<close>

text \<open>The messages are those of CPython 3.12; no statement below depends on their wording.\<close>

fun type_name :: "json \<Rightarrow> string" where
  "type_name JNull = ''NoneType''"
| "type_name (JBool b) = ''bool''"
| "type_name (JInt i) = ''int''"
| "type_name (JFloat f) = ''float''"
| "type_name (JStr s) = ''str''"
| "type_name (JList xs) = ''list''"
| "type_name (JDict kvs) = ''dict''"

definition quoted :: "string \<Rightarrow> string" where
  "quoted s = [CHR 0x27] @ s @ [CHR 0x27]"

text \<open>\<^verbatim>\<open>k in x\<close> for a string \<open>k\<close>: a key of a dict, an element of a list, a substring of a
  string; a \<^verbatim>\<open>TypeError\<close> on anything else.\<close>

fun py_contains :: "string \<Rightarrow> json \<Rightarrow> exn + bool" where
  "py_contains k (JDict kvs) = Inr (k \<in> set (map fst kvs))"
| "py_contains k (JList xs) = Inr (JStr k \<in> set xs)"
| "py_contains k (JStr s) = Inr (sublist k s)"
| "py_contains k x =
     Inl (OtherException (''argument of type '' @ quoted (type_name x) @ '' is not iterable''))"

text \<open>\<^verbatim>\<open>x[k]\<close> for a string \<open>k\<close>: the value of a dict's key, a \<^verbatim>\<open>KeyError\<close> when the key is
  missing, a \<^verbatim>\<open>TypeError\<close> on anything that is not a dict.\<close>

fun py_getitem :: "json \<Rightarrow> string \<Rightarrow> exn + json" where
  "py_getitem (JDict kvs) k =
     (case map_of kvs k of Some v \<Rightarrow> Inr v | None \<Rightarrow> Inl (OtherException (quoted k)))"
| "py_getitem (JList xs) k =
     Inl (OtherException ''list indices must be integers or slices, not str'')"
| "py_getitem (JStr s) k =
     Inl (OtherException (''string indices must be integers, not '' @ quoted ''str''))"
| "py_getitem x k =
     Inl (OtherException (quoted (type_name x) @ '' object is not subscriptable''))"

text \<open>\<^verbatim>\<open>x.get(k, d)\<close>: the method of a dict; an \<^verbatim>\<open>AttributeError\<close> on anything else.\<close>

fun py_get :: "json \<Rightarrow> string \<Rightarrow> json \<Rightarrow> exn + json" where
  "py_get (JDict kvs) k d = Inr (case map_of kvs k of Some v \<Rightarrow> v | None \<Rightarrow> d)"
| "py_get x k d =
     Inl (OtherException (quoted (type_name x) @ '' object has no attribute '' @ quoted ''get''))"

section \<open>The world outside the module\<close>

text \<open>
  A request as \<^verbatim>\<open>urllib.request.urlopen\<close> receives it: the URL, the body (the encoded text of
  \<^verbatim>\<open>json.dumps\<close>, if any), the headers, the method if one is given, and the timeout in
  seconds.
\<close>

record request =
  req_url :: string
  req_data :: "pytext option"
  req_headers :: "(string \<times> string) list"
  req_method :: "string option"
  req_timeout :: nat

text \<open>
  Everything an \<^verbatim>\<open>execute\<close> reads from outside:

  \<^item> \<open>getenv\<close>: \<^verbatim>\<open>os.getenv\<close>;
  \<^item> \<open>urlopen\<close>: the outcome of \<^verbatim>\<open>with urllib.request.urlopen(...) as resp: resp.read().decode()\<close>,
    either the exception raised on the way (building the request, connecting, a timeout, an
    HTTP error status, reading, decoding) or the decoded body of a successful response;
  \<^item> \<open>json_loads\<close>: \<^verbatim>\<open>json.loads\<close>, either the message of the \<^verbatim>\<open>JSONDecodeError\<close> or the
    value;
  \<^item> \<open>int_truediv\<close>: \<^verbatim>\<open>a / b\<close> on two ints, \<open>None\<close> for its \<^verbatim>\<open>OverflowError\<close>;
    \<open>float_truediv\<close>: \<^verbatim>\<open>x / b\<close> for a float and a non-zero int;
  \<^item> \<open>path_exists\<close>: \<^verbatim>\<open>Path.exists\<close>, which answers or raises: pathlib (CPython 3.11, 3.12)
    hands on every \<^verbatim>\<open>OSError\<close> of \<^verbatim>\<open>stat\<close> but \<^verbatim>\<open>ENOENT\<close>, \<^verbatim>\<open>ENOTDIR\<close>, \<^verbatim>\<open>EBADF\<close> and
    \<^verbatim>\<open>ELOOP\<close>, so a directory on the way that may not be searched gives a
    \<^verbatim>\<open>PermissionError\<close>;
  \<^item> \<open>read_text\<close>: \<^verbatim>\<open>with open(path) as f: f.read()\<close>, \<open>None\<close> when opening or reading
    raises (the module drops that exception);
  \<^item> \<open>home\<close>: \<^verbatim>\<open>Path.home()\<close>, which raises a \<^verbatim>\<open>RuntimeError\<close> when no home directory can
    be determined; \<open>cwd\<close>: \<^verbatim>\<open>Path.cwd()\<close>.

  A path is the list of its components.
\<close>

type_synonym path = "string list"

record world =
  getenv :: "string \<Rightarrow> string option"
  urlopen :: "request \<Rightarrow> exn + string"
  json_loads :: "string \<Rightarrow> string + json"
  int_truediv :: "int \<Rightarrow> int \<Rightarrow> pyfloat option"
  float_truediv :: "pyfloat \<Rightarrow> int \<Rightarrow> pyfloat"
  path_exists :: "path \<Rightarrow> exn + bool"
  read_text :: "path \<Rightarrow> string option"
  home :: "exn + path"
  cwd :: path

definition loads :: "world \<Rightarrow> string \<Rightarrow> exn + json" where
  "loads w s = (case json_loads w s of Inl msg \<Rightarrow> Inl (OtherException msg) | Inr j \<Rightarrow> Inr j)"

text \<open>\<^verbatim>\<open>x / n\<close> for a parsed value \<open>x\<close> and an int \<open>n\<close>: \<^verbatim>\<open>bool\<close> is a subclass of
  \<^verbatim>\<open>int\<close>; a \<^verbatim>\<open>TypeError\<close> on anything that is not a number.\<close>

fun py_truediv :: "world \<Rightarrow> json \<Rightarrow> int \<Rightarrow> exn + pyfloat" where
  "py_truediv w (JInt i) n =
     (case int_truediv w i n of
        Some f \<Rightarrow> Inr f
      | None \<Rightarrow> Inl (OtherException ''integer division result too large for a float''))"
| "py_truediv w (JBool b) n =
     (case int_truediv w (if b then 1 else 0) n of
        Some f \<Rightarrow> Inr f
      | None \<Rightarrow> Inl (OtherException ''integer division result too large for a float''))"
| "py_truediv w (JFloat x) n = Inr (float_truediv w x n)"
| "py_truediv w x n =
     Inl (OtherException (''unsupported operand type(s) for /: '' @ quoted (type_name x)
            @ '' and '' @ quoted ''int''))"

section \<open>The tools\<close>

definition SAID_API :: string where
  "SAID_API = ''https://api.saidprotocol.com''"

text \<open>\<^verbatim>\<open>urllib.request.urlopen(url, timeout=10)\<close> on a URL string.\<close>

definition get_request :: "string \<Rightarrow> request" where
  "get_request u =
     \<lparr>req_url = u, req_data = None, req_headers = [], req_method = None, req_timeout = 10\<rparr>"

text \<open>The document every handler of the module builds, with or without a flag before the
  \<^verbatim>\<open>error\<close> field.\<close>

definition error_json :: "(string \<times> json) list \<Rightarrow> string \<Rightarrow> pytext" where
  "error_json flags msg = Dumps (JDict (flags @ [(''error'', JStr msg)]))"

subsection \<open>GetBalanceTool\<close>

definition balance_request :: "world \<Rightarrow> string \<Rightarrow> request" where
  "balance_request w address =
     (let rpc_url = (case getenv w ''SOLANA_RPC_URL'' of
                       Some u \<Rightarrow> u
                     | None \<Rightarrow> ''https://api.mainnet-beta.solana.com'');
          payload = Dumps (JDict [(''jsonrpc'', JStr ''2.0''), (''id'', JInt 1),
                                  (''method'', JStr ''getBalance''),
                                  (''params'', JList [JStr address])])
      in \<lparr>req_url = rpc_url, req_data = Some payload,
          req_headers = [(''Content-Type'', ''application/json'')],
          req_method = None, req_timeout = 10\<rparr>)"

definition balance_reply :: "world \<Rightarrow> string \<Rightarrow> json \<Rightarrow> exn + pytext" where
  "balance_reply w address data =
     and_then (py_contains ''result'' data) (\<lambda>has_result.
       if has_result then
         and_then (py_getitem data ''result'') (\<lambda>result.
         and_then (py_getitem result ''value'') (\<lambda>lamports.
         and_then (py_truediv w lamports 1000000000) (\<lambda>sol.
           Inr (Dumps (JDict [(''address'', JStr address), (''balance_sol'', JFloat sol),
                              (''balance_lamports'', lamports)])))))
       else
         and_then (py_get data ''error'' (JStr ''Unknown error'')) (\<lambda>err.
           Inr (Dumps (JDict [(''error'', err)]))))"

definition GetBalanceTool_execute :: "world \<Rightarrow> string \<Rightarrow> exn + pytext" where
  "GetBalanceTool_execute w address =
     try_except
       (and_then (urlopen w (balance_request w address)) (\<lambda>body.
        and_then (loads w body) (\<lambda>data.
          balance_reply w address data)))
       (\<lambda>e. Inr (error_json [] (str_exn e)))"

subsection \<open>VerifyAgentTool\<close>

definition agents_request :: "string \<Rightarrow> request" where
  "agents_request wallet = get_request (SAID_API @ ''/api/agents/'' @ wallet)"

definition verify_reply :: "string \<Rightarrow> json \<Rightarrow> exn + pytext" where
  "verify_reply wallet agent =
     and_then (py_get agent ''name'' JNull) (\<lambda>name.
     and_then (py_get agent ''wallet'' JNull) (\<lambda>wal.
     and_then (py_get agent ''pda'' JNull) (\<lambda>pda.
     and_then (py_get agent ''isVerified'' JNull) (\<lambda>is_verified.
     and_then (py_get agent ''reputationScore'' JNull) (\<lambda>score.
     and_then (py_get agent ''description'' JNull) (\<lambda>descr.
       Inr (Dumps (JDict [(''verified'', JBool True), (''name'', name), (''wallet'', wal),
              (''pda'', pda), (''isVerified'', is_verified), (''reputationScore'', score),
              (''description'', descr),
              (''profile'',
                 JStr (''https://www.saidprotocol.com/agent.html?wallet='' @ wallet))]))))))))"

fun verify_handler :: "exn \<Rightarrow> exn + pytext" where
  "verify_handler (HTTPError code msg body) =
     (if code = 404 then Inr (error_json [(''verified'', JBool False)]
                                ''Agent not found in SAID registry'')
      else Inr (error_json [(''verified'', JBool False)] (str_exn (HTTPError code msg body))))"
| "verify_handler (OtherException msg) =
     Inr (error_json [(''verified'', JBool False)] (str_exn (OtherException msg)))"

definition VerifyAgentTool_execute :: "world \<Rightarrow> string \<Rightarrow> exn + pytext" where
  "VerifyAgentTool_execute w wallet =
     try_except
       (and_then (urlopen w (agents_request wallet)) (\<lambda>body.
        and_then (loads w body) (\<lambda>agent.
          verify_reply wallet agent)))
       verify_handler"

subsection \<open>LookupAgentTool\<close>

fun lookup_handler :: "exn \<Rightarrow> exn + pytext" where
  "lookup_handler (HTTPError code msg body) =
     (if code = 404 then Inr (error_json [] ''Agent not found'')
      else Inr (error_json [] (str_exn (HTTPError code msg body))))"
| "lookup_handler (OtherException msg) = Inr (error_json [] (str_exn (OtherException msg)))"

definition LookupAgentTool_execute :: "world \<Rightarrow> string \<Rightarrow> exn + pytext" where
  "LookupAgentTool_execute w wallet =
     try_except
       (and_then (urlopen w (agents_request wallet)) (\<lambda>body. Inr (Raw body)))
       lookup_handler"

subsection \<open>GetTrustScoreTool\<close>

definition trust_request :: "string \<Rightarrow> request" where
  "trust_request wallet = get_request (SAID_API @ ''/api/trust/'' @ wallet)"

definition GetTrustScoreTool_execute :: "world \<Rightarrow> string \<Rightarrow> exn + pytext" where
  "GetTrustScoreTool_execute w wallet =
     try_except
       (and_then (urlopen w (trust_request wallet)) (\<lambda>body. Inr (Raw body)))
       (\<lambda>e. Inr (error_json [] (str_exn e)))"

subsection \<open>RegisterAgentTool\<close>

text \<open>The parameter \<^verbatim>\<open>description: str = ""\<close>: \<open>None\<close> is a call without it.\<close>

definition register_request :: "string \<Rightarrow> string \<Rightarrow> string option \<Rightarrow> request" where
  "register_request wallet name description_arg =
     (let description = (case description_arg of None \<Rightarrow> [] | Some d \<Rightarrow> d);
          payload = Dumps (JDict [(''wallet'', JStr wallet), (''name'', JStr name),
                      (''description'',
                         JStr (if description \<noteq> [] then description
                               else name @ '' - AI Agent''))])
      in \<lparr>req_url = SAID_API @ ''/api/register/pending'', req_data = Some payload,
          req_headers = [(''Content-Type'', ''application/json'')],
          req_method = Some ''POST'', req_timeout = 10\<rparr>)"

definition register_reply :: "json \<Rightarrow> exn + pytext" where
  "register_reply result =
     and_then (py_get result ''wallet'' JNull) (\<lambda>wal.
     and_then (py_get result ''pda'' JNull) (\<lambda>pda.
     and_then (py_get result ''profile'' JNull) (\<lambda>profile.
       Inr (Dumps (JDict [(''success'', JBool True), (''wallet'', wal), (''pda'', pda),
                          (''profile'', profile), (''status'', JStr ''PENDING'')])))))"

definition RegisterAgentTool_execute ::
  "world \<Rightarrow> string \<Rightarrow> string \<Rightarrow> string option \<Rightarrow> exn + pytext" where
  "RegisterAgentTool_execute w wallet name description_arg =
     try_except
       (and_then (urlopen w (register_request wallet name description_arg)) (\<lambda>body.
        and_then (loads w body) (\<lambda>result.
          register_reply result)))
       (\<lambda>e. Inr (error_json [(''success'', JBool False)] (str_exn e)))"

subsection \<open>GetMyIdentityTool\<close>

text \<open>\<^verbatim>\<open>self.workspace = workspace or Path.cwd()\<close>: a \<^verbatim>\<open>Path\<close> is never falsy.\<close>

definition GetMyIdentityTool_init :: "world \<Rightarrow> path option \<Rightarrow> path" where
  "GetMyIdentityTool_init w workspace = (case workspace of Some p \<Rightarrow> p | None \<Rightarrow> cwd w)"

text \<open>The list \<^verbatim>\<open>paths\<close>, from the workspace and the home directory.\<close>

definition identity_paths :: "path \<Rightarrow> path \<Rightarrow> path list" where
  "identity_paths workspace h =
     [workspace @ [''said.json''],
      h @ [''.nanobot''] @ [''said.json''],
      h @ [''.config''] @ [''said''] @ [''identity.json'']]"

text \<open>The loop over the candidates: the first one that exists and can be opened and read
  ends it; an exception of \<^verbatim>\<open>open\<close> or \<^verbatim>\<open>read\<close> is dropped and the loop goes on.
  \<^verbatim>\<open>path.exists()\<close> stands outside the \<^verbatim>\<open>try\<close>: an exception of it ends the loop and
  leaves \<^verbatim>\<open>execute\<close>.\<close>

fun scan_paths :: "world \<Rightarrow> path list \<Rightarrow> exn + string option" where
  "scan_paths w [] = Inr None"
| "scan_paths w (p # ps) =
     (case path_exists w p of
        Inl e \<Rightarrow> Inl e
      | Inr found \<Rightarrow>
          if found then
            (case read_text w p of
               Some content \<Rightarrow> Inr (Some content)
             | None \<Rightarrow> scan_paths w ps)
          else scan_paths w ps)"

text \<open>No \<^verbatim>\<open>try\<close> encloses the body: \<^verbatim>\<open>Path.home()\<close> and the loop may raise.\<close>

definition GetMyIdentityTool_execute :: "world \<Rightarrow> path \<Rightarrow> exn + pytext" where
  "GetMyIdentityTool_execute w workspace =
     and_then (home w) (\<lambda>h.
     and_then (scan_paths w (identity_paths workspace h)) (\<lambda>found.
       case found of
         Some content \<Rightarrow> Inr (Raw content)
       | None \<Rightarrow>
           Inr (error_json []
                  ''SAID identity not found. Register first with register_said_agent.'')))"

section \<open>Notions the statements use\<close>

text \<open>The defaulting lookup \<^verbatim>\<open>d.get(k)\<close> on the entries of a dict: \<^verbatim>\<open>None\<close> (JSON
  \<^verbatim>\<open>null\<close>) for a missing key.\<close>

definition field_or_null :: "(string \<times> json) list \<Rightarrow> string \<Rightarrow> json" where
  "field_or_null kvs k = (case map_of kvs k of Some v \<Rightarrow> v | None \<Rightarrow> JNull)"

text \<open>An \<^verbatim>\<open>HTTPError\<close> whose \<^verbatim>\<open>code\<close> is 404.\<close>

fun is_http_404 :: "exn \<Rightarrow> bool" where
  "is_http_404 (HTTPError code msg body) = (code = 404)"
| "is_http_404 (OtherException msg) = False"

text \<open>A field of the JSON object a request carries as its body.\<close>

definition payload_field :: "request \<Rightarrow> string \<Rightarrow> json option" where
  "payload_field req k =
     (case req_data req of Some (Dumps (JDict kvs)) \<Rightarrow> map_of kvs k | _ \<Rightarrow> None)"

text \<open>What a candidate file yields: its content when it exists and can be opened and
  read.\<close>

definition readable_content :: "world \<Rightarrow> path \<Rightarrow> string option" where
  "readable_content w p = (case path_exists w p of Inr True \<Rightarrow> read_text w p | _ \<Rightarrow> None)"

text \<open>\<^verbatim>\<open>Path.exists\<close> answers for every path of the list.\<close>

definition exists_answers :: "world \<Rightarrow> path list \<Rightarrow> bool" where
  "exists_answers w ps = list_all (\<lambda>p. \<not> isl (path_exists w p)) ps"

text \<open>A JSON object with an \<^verbatim>\<open>error\<close> field.\<close>

fun is_error_object :: "json \<Rightarrow> bool" where
  "is_error_object (JDict kvs) = (''error'' \<in> set (map fst kvs))"
| "is_error_object j = False"

text \<open>
  A text that is a well-formed JSON document with an \<^verbatim>\<open>error\<close> field: \<^verbatim>\<open>json.dumps\<close> of
  such an object, or a text taken as it is that \<^verbatim>\<open>json.loads\<close> parses to one.
\<close>

definition error_document :: "world \<Rightarrow> pytext \<Rightarrow> bool" where
  "error_document w t =
     (case t of
        Dumps j \<Rightarrow> is_error_object j
      | Raw s \<Rightarrow> (case json_loads w s of Inr j \<Rightarrow> is_error_object j | Inl msg \<Rightarrow> False))"

text \<open>The call returns (it does not raise), and what it returns is such a document.\<close>

definition returns_error_document :: "world \<Rightarrow> exn + pytext \<Rightarrow> bool" where
  "returns_error_document w r = (case r of Inr t \<Rightarrow> error_document w t | Inl e \<Rightarrow> False)"

text \<open>
  The faults of a request: \<open>request_fails\<close> when anything on the way raises (a transport
  fault, a timeout, an HTTP error status); \<open>reply_malformed\<close> when a body arrives that
  \<^verbatim>\<open>json.loads\<close> rejects.
\<close>

definition request_fails :: "world \<Rightarrow> request \<Rightarrow> bool" where
  "request_fails w req = isl (urlopen w req)"

definition reply_malformed :: "world \<Rightarrow> request \<Rightarrow> bool" where
  "reply_malformed w req =
     (case urlopen w req of Inr body \<Rightarrow> isl (json_loads w body) | Inl e \<Rightarrow> False)"

text \<open>A body arrives and parses, and what the tool then does with the value (\<open>reshape\<close>)
  raises: a \<^verbatim>\<open>KeyError\<close>, \<^verbatim>\<open>TypeError\<close>, \<^verbatim>\<open>AttributeError\<close> or \<^verbatim>\<open>OverflowError\<close> inside the
  same \<^verbatim>\<open>try\<close>.\<close>

definition reply_raises :: "world \<Rightarrow> request \<Rightarrow> (json \<Rightarrow> exn + pytext) \<Rightarrow> bool" where
  "reply_raises w req reshape =
     (case urlopen w req of
        Inr body \<Rightarrow>
          (case json_loads w body of Inr data \<Rightarrow> isl (reshape data) | Inl msg \<Rightarrow> False)
      | Inl e \<Rightarrow> False)"

text \<open>The body parses, and to a JSON object.\<close>

definition parses_as_object :: "world \<Rightarrow> string \<Rightarrow> bool" where
  "parses_as_object w body =
     (case json_loads w body of Inr (JDict kvs) \<Rightarrow> True | _ \<Rightarrow> False)"

text \<open>The field names of a returned JSON object, and one of its fields.\<close>

definition result_fields :: "exn + pytext \<Rightarrow> string list" where
  "result_fields r = (case r of Inr (Dumps (JDict kvs)) \<Rightarrow> map fst kvs | _ \<Rightarrow> [])"

definition result_field :: "string \<Rightarrow> exn + pytext \<Rightarrow> json option" where
  "result_field k r = (case r of Inr (Dumps (JDict kvs)) \<Rightarrow> map_of kvs k | _ \<Rightarrow> None)"

section \<open>Example worlds\<close>

text \<open>
  Worlds on which the statements are evaluated. Where no run reaches a division, the
  two float operations are left unspecified.

  \<open>offline\<close>: no variable set, every request times out, no file exists.
\<close>

definition offline :: world where
  "offline =
     \<lparr>getenv = (\<lambda>_. None),
      urlopen = (\<lambda>_. Inl (OtherException ''<urlopen error timed out>'')),
      json_loads = (\<lambda>_. Inl ''Expecting value: line 1 column 1 (char 0)''),
      int_truediv = undefined, float_truediv = undefined,
      path_exists = (\<lambda>_. Inr False), read_text = (\<lambda>_. None),
      home = Inr [''/'', ''home'', ''bot''], cwd = [''/'', ''srv'', ''bot'']\<rparr>"

text \<open>\<open>registry_404\<close>: every request is answered with status 404.\<close>

definition registry_404 :: world where
  "registry_404 = offline
     \<lparr>urlopen := (\<lambda>_. Inl (HTTPError 404 ''HTTP Error 404: Not Found'' ''<h1>Not Found</h1>''))\<rparr>"

text \<open>\<open>laptop\<close>: no file in the workspace; \<^verbatim>\<open>~/.nanobot/said.json\<close> exists but cannot be
  opened; \<^verbatim>\<open>~/.config/said/identity.json\<close> exists and is read.\<close>

definition laptop :: world where
  "laptop = offline
     \<lparr>path_exists := (\<lambda>p. Inr (p = [''/'', ''home'', ''bot'', ''.nanobot'', ''said.json'']
                         \<or> p = [''/'', ''home'', ''bot'', ''.config'', ''said'', ''identity.json''])),
      read_text := (\<lambda>p. if p = [''/'', ''home'', ''bot'', ''.config'', ''said'', ''identity.json'']
                         then Some ''{wallet: not even JSON'' else None)\<rparr>"

text \<open>\<open>locked_nanobot\<close>: no candidate file exists, and the directory \<^verbatim>\<open>~/.nanobot\<close> may not
  be searched, so that \<^verbatim>\<open>stat\<close> of a path inside it fails with \<^verbatim>\<open>EACCES\<close>.\<close>

definition locked_nanobot :: world where
  "locked_nanobot = offline
     \<lparr>path_exists := (\<lambda>p. if p = [''/'', ''home'', ''bot'', ''.nanobot'', ''said.json'']
                            then Inl (OtherException (''[Errno 13] Permission denied: ''
                                        @ quoted ''/home/bot/.nanobot/said.json''))
                            else Inr False)\<rparr>"

text \<open>\<open>sparse_registry\<close>: every request is answered with status 200 and a JSON object
  that has none of the fields the tools look up but \<^verbatim>\<open>isVerified\<close>.\<close>

definition sparse_registry :: world where
  \<open>sparse_registry = offline
     \<lparr>urlopen := (\<lambda>_. Inr ''{"isVerified": false, "status": "REJECTED", "success": false}''),
      json_loads := (\<lambda>s. if s = ''{"isVerified": false, "status": "REJECTED", "success": false}''
                          then Inr (JDict [(''isVerified'', JBool False),
                                           (''status'', JStr ''REJECTED''),
                                           (''success'', JBool False)])
                          else Inl ''Expecting value: line 1 column 1 (char 0)'')\<rparr>\<close>

text \<open>\<open>array_reply\<close>: every request is answered with status 200 and the body \<^verbatim>\<open>[]\<close>.\<close>

definition array_reply :: world where
  "array_reply = offline
     \<lparr>urlopen := (\<lambda>_. Inr ''[]''),
      json_loads := (\<lambda>s. if s = ''[]'' then Inr (JList [])
                          else Inl ''Expecting value: line 1 column 1 (char 0)'')\<rparr>"

text \<open>\<open>html_reply\<close>: every request is answered with status 200 and a body that is not
  JSON.\<close>

definition html_reply :: world where
  "html_reply = offline
     \<lparr>urlopen := (\<lambda>_. Inr ''<html>502 Bad Gateway</html>''),
      json_loads := (\<lambda>_. Inl ''Expecting value: line 1 column 1 (char 0)'')\<rparr>"

text \<open>\<open>empty_object_reply\<close>: every request is answered with status 200 and the body
  \<^verbatim>\<open>{}\<close>.\<close>

definition empty_object_reply :: world where
  "empty_object_reply = offline
     \<lparr>urlopen := (\<lambda>_. Inr ''{}''),
      json_loads := (\<lambda>s. if s = ''{}'' then Inr (JDict [])
                          else Inl ''Expecting value: line 1 column 1 (char 0)'')\<rparr>"

text \<open>\<open>rpc_error_reply\<close>: the JSON-RPC endpoint answers with an error response.\<close>

definition rpc_error_reply :: world where
  \<open>rpc_error_reply = offline
     \<lparr>urlopen := (\<lambda>_. Inr ''{"jsonrpc":"2.0","error":{"code":-32602,"message":"Invalid param"},"id":1}''),
      json_loads := (\<lambda>s.
        if s = ''{"jsonrpc":"2.0","error":{"code":-32602,"message":"Invalid param"},"id":1}''
        then Inr (JDict [(''jsonrpc'', JStr ''2.0''),
                         (''error'', JDict [(''code'', JInt (- 32602)),
                                            (''message'', JStr ''Invalid param'')]),
                         (''id'', JInt 1)])
        else Inl ''Expecting value: line 1 column 1 (char 0)'')\<rparr>\<close>

text \<open>\<open>null_result_reply\<close>: the endpoint answers in the JSON-RPC 1.0 manner, with both
  fields, \<^verbatim>\<open>result\<close> being \<^verbatim>\<open>null\<close>.\<close>

definition null_result_reply :: world where
  \<open>null_result_reply = offline
     \<lparr>urlopen := (\<lambda>_. Inr ''{"result":null,"error":{"code":-32602,"message":"Invalid param"},"id":1}''),
      json_loads := (\<lambda>s.
        if s = ''{"result":null,"error":{"code":-32602,"message":"Invalid param"},"id":1}''
        then Inr (JDict [(''result'', JNull),
                         (''error'', JDict [(''code'', JInt (- 32602)),
                                            (''message'', JStr ''Invalid param'')]),
                         (''id'', JInt 1)])
        else Inl ''Expecting value: line 1 column 1 (char 0)'')\<rparr>\<close>

text \<open>\<open>empty_result_reply\<close>: the endpoint answers with a \<^verbatim>\<open>result\<close> that has no
  \<^verbatim>\<open>value\<close>.\<close>

definition empty_result_reply :: world where
  \<open>empty_result_reply = offline
     \<lparr>urlopen := (\<lambda>_. Inr ''{"jsonrpc":"2.0","result":{},"id":1}''),
      json_loads := (\<lambda>s.
        if s = ''{"jsonrpc":"2.0","result":{},"id":1}''
        then Inr (JDict [(''jsonrpc'', JStr ''2.0''), (''result'', JDict []), (''id'', JInt 1)])
        else Inl ''Expecting value: line 1 column 1 (char 0)'')\<rparr>\<close>

text \<open>\<open>sol_reply\<close>: the endpoint reports 1 500 000 000 lamports; the runtime divides them
  by 10^9 to the float 1.5.\<close>

definition sol_reply :: world where
  \<open>sol_reply = offline
     \<lparr>urlopen := (\<lambda>_. Inr ''{"jsonrpc":"2.0","result":{"context":{"slot":1},"value":1500000000},"id":1}''),
      json_loads := (\<lambda>s.
        if s = ''{"jsonrpc":"2.0","result":{"context":{"slot":1},"value":1500000000},"id":1}''
        then Inr (JDict [(''jsonrpc'', JStr ''2.0''),
                         (''result'', JDict [(''context'', JDict [(''slot'', JInt 1)]),
                                             (''value'', JInt 1500000000)]),
                         (''id'', JInt 1)])
        else Inl ''Expecting value: line 1 column 1 (char 0)''),
      int_truediv := (\<lambda>a b. if a = 1500000000 \<and> b = 1000000000 then Some (float_of (3 / 2))
                             else undefined)\<rparr>\<close>

text \<open>\<open>dust_reply\<close>: the endpoint reports 1 lamport; the runtime divides it by 10^9 to
  the float \<^verbatim>\<open>0x1.12e0be826d695p-30\<close>, which is 4835703278458517 / 2^82 (what CPython prints
  as \<^verbatim>\<open>1e-09\<close>).\<close>

definition dust_reply :: world where
  \<open>dust_reply = offline
     \<lparr>urlopen := (\<lambda>_. Inr ''{"jsonrpc":"2.0","result":{"context":{"slot":1},"value":1},"id":1}''),
      json_loads := (\<lambda>s.
        if s = ''{"jsonrpc":"2.0","result":{"context":{"slot":1},"value":1},"id":1}''
        then Inr (JDict [(''jsonrpc'', JStr ''2.0''),
                         (''result'', JDict [(''context'', JDict [(''slot'', JInt 1)]),
                                             (''value'', JInt 1)]),
                         (''id'', JInt 1)])
        else Inl ''Expecting value: line 1 column 1 (char 0)''),
      int_truediv := (\<lambda>a b. if a = 1 \<and> b = 1000000000
                             then Some (float_of (4835703278458517 / 2 ^ 82))
                             else undefined)\<rparr>\<close>

text \<open>\<open>overflow_reply\<close>: the endpoint reports 10^400 lamports; the quotient lies beyond
  the largest float and the runtime's division raises \<^verbatim>\<open>OverflowError\<close>.\<close>

definition huge_lamports :: int where
  "huge_lamports = 10 ^ 400"

definition overflow_body :: string where
  \<open>overflow_body =
     ''{"jsonrpc":"2.0","result":{"context":{"slot":1},"value":10000000000000000000000000000000000000000000000000000000000000000000000000000000000000000000000000000000000000000000000000000000000000000000000000000000000000000000000000000000000000000000000000000000000000000000000000000000000000000000000000000000000000000000000000000000000000000000000000000000000000000000000000000000000000000000000000000000000000000000000000000000000000000000000000000000000000000},"id":1}''\<close>

definition overflow_reply :: world where
  \<open>overflow_reply = offline
     \<lparr>urlopen := (\<lambda>_. Inr overflow_body),
      json_loads := (\<lambda>s.
        if s = overflow_body
        then Inr (JDict [(''jsonrpc'', JStr ''2.0''),
                         (''result'', JDict [(''context'', JDict [(''slot'', JInt 1)]),
                                             (''value'', JInt huge_lamports)]),
                         (''id'', JInt 1)])
        else Inl ''Expecting value: line 1 column 1 (char 0)''),
      int_truediv := (\<lambda>a b. if a = huge_lamports \<and> b = 1000000000 then None else undefined)\<rparr>\<close>

text \<open>\<open>picky_registry\<close>: the registry accepts a POST to the registration endpoint whose
  body carries the description \<^verbatim>\<open>Bot1 - AI Agent\<close>, and answers anything else with status
  400.\<close>

definition picky_registry :: world where
  \<open>picky_registry = offline
     \<lparr>urlopen := (\<lambda>req.
        if req_url req = ''https://api.saidprotocol.com/api/register/pending''
           \<and> req_method req = Some ''POST''
           \<and> payload_field req ''description'' = Some (JStr ''Bot1 - AI Agent'')
        then Inr ''{"wallet": "W1", "pda": "P1"}''
        else Inl (HTTPError 400 ''HTTP Error 400: Bad Request'' ''bad description'')),
      json_loads := (\<lambda>s.
        if s = ''{"wallet": "W1", "pda": "P1"}''
        then Inr (JDict [(''wallet'', JStr ''W1''), (''pda'', JStr ''P1'')])
        else Inl ''Expecting value: line 1 column 1 (char 0)'')\<rparr>\<close>

section \<open>Basic facts\<close>

lemma try_except_Inl [simp]: "try_except (Inl e) h = h e"
  by (simp add: try_except_def)

lemma try_except_Inr [simp]: "try_except (Inr v) h = Inr v"
  by (simp add: try_except_def)

lemma and_then_Inl [simp]: "and_then (Inl e) f = Inl e"
  by (simp add: and_then_def)

lemma and_then_Inr [simp]: "and_then (Inr v) f = f v"
  by (simp add: and_then_def)

section \<open>Verification: faults (C3)\<close>

lemma verify_fault:
  "urlopen w (agents_request wallet) = Inl e \<Longrightarrow>
   VerifyAgentTool_execute w wallet = verify_handler e"
  by (simp add: VerifyAgentTool_execute_def)

text \<open>
  Claim C3. When the request of \<^verbatim>\<open>VerifyAgentTool.execute\<close> is answered with status 404,
  whatever the body of that response, the result is exactly
  \<^verbatim>\<open>{"verified": false, "error": "Agent not found in SAID registry"}\<close>; on every other
  exception of the request (another HTTP error status, a transport fault) it is
  \<^verbatim>\<open>{"verified": false, "error": str(e)}\<close>.
\<close>

theorem C3_verify_faults:
  "(urlopen w (agents_request wallet) = Inl (HTTPError 404 msg body) \<longrightarrow>
      VerifyAgentTool_execute w wallet =
        Inr (Dumps (JDict [(''verified'', JBool False),
                           (''error'', JStr ''Agent not found in SAID registry'')])))
   \<and> (urlopen w (agents_request wallet) = Inl e \<and> \<not> is_http_404 e \<longrightarrow>
      VerifyAgentTool_execute w wallet =
        Inr (Dumps (JDict [(''verified'', JBool False), (''error'', JStr (str_exn e))])))"
proof (intro conjI impI)
  assume "urlopen w (agents_request wallet) = Inl (HTTPError 404 msg body)"
  then show "VerifyAgentTool_execute w wallet =
        Inr (Dumps (JDict [(''verified'', JBool False),
                           (''error'', JStr ''Agent not found in SAID registry'')]))"
    by (simp add: verify_fault error_json_def)
next
  assume a: "urlopen w (agents_request wallet) = Inl e \<and> \<not> is_http_404 e"
  then have "verify_handler e = Inr (error_json [(''verified'', JBool False)] (str_exn e))"
    by (cases e) simp_all
  with a show "VerifyAgentTool_execute w wallet =
        Inr (Dumps (JDict [(''verified'', JBool False), (''error'', JStr (str_exn e))]))"
    by (simp add: verify_fault error_json_def)
qed

theorem C3_verify_faults_witness:
  "VerifyAgentTool_execute registry_404 ''7xKXtg2CW87d97TXJSDpbD5jBkheTqA83TZRuJosgAsU'' =
     Inr (Dumps (JDict [(''verified'', JBool False),
                        (''error'', JStr ''Agent not found in SAID registry'')]))
   \<and> VerifyAgentTool_execute offline ''7xKXtg2CW87d97TXJSDpbD5jBkheTqA83TZRuJosgAsU'' =
     Inr (Dumps (JDict [(''verified'', JBool False),
                        (''error'', JStr ''<urlopen error timed out>'')]))"
  using C3_verify_faults [of registry_404 "''7xKXtg2CW87d97TXJSDpbD5jBkheTqA83TZRuJosgAsU''"
      "''HTTP Error 404: Not Found''" "''<h1>Not Found</h1>''"]
    C3_verify_faults [of offline "''7xKXtg2CW87d97TXJSDpbD5jBkheTqA83TZRuJosgAsU''" _ _
      "OtherException ''<urlopen error timed out>''"]
  by (simp add: registry_404_def offline_def)

section \<open>Registration: the description sent (C4)\<close>

lemma register_reply_dict:
  "register_reply (JDict kvs) =
     Inr (Dumps (JDict [(''success'', JBool True), (''wallet'', field_or_null kvs ''wallet''),
            (''pda'', field_or_null kvs ''pda''), (''profile'', field_or_null kvs ''profile''),
            (''status'', JStr ''PENDING'')]))"
  by (simp add: register_reply_def field_or_null_def)

lemma register_fault:
  "urlopen w (register_request wallet name description_arg) = Inl e \<Longrightarrow>
   RegisterAgentTool_execute w wallet name description_arg =
     Inr (Dumps (JDict [(''success'', JBool False), (''error'', JStr (str_exn e))]))"
  by (simp add: RegisterAgentTool_execute_def error_json_def)

lemma register_ok:
  "urlopen w (register_request wallet name description_arg) = Inr body \<Longrightarrow>
   json_loads w body = Inr result \<Longrightarrow>
   RegisterAgentTool_execute w wallet name description_arg =
     try_except (register_reply result)
       (\<lambda>e. Inr (error_json [(''success'', JBool False)] (str_exn e)))"
  by (simp add: RegisterAgentTool_execute_def loads_def)

lemma register_other_requests:
  "other \<noteq> register_request wallet name description_arg \<Longrightarrow>
   RegisterAgentTool_execute (w\<lparr>urlopen := (urlopen w)(other := outcome)\<rparr>)
       wallet name description_arg =
     RegisterAgentTool_execute w wallet name description_arg"
  by (simp add: RegisterAgentTool_execute_def loads_def)

text \<open>
  Claim C4. When the description argument is absent or the empty string, the body of the
  POST carries the description \<^verbatim>\<open>"{name} - AI Agent"\<close>; a non-empty description is carried
  unchanged. The request with that body, a POST to the registration endpoint, is the one
  \<^verbatim>\<open>execute\<close> sends: the result is the outcome of that request, an error document when
  it raises and the acknowledgement when it is answered with a JSON object, and the
  outcome of no other request is read.
\<close>

theorem C4_register_description:
  "(description_arg = None \<or> description_arg = Some [] \<longrightarrow>
      payload_field (register_request wallet name description_arg) ''description'' =
        Some (JStr (name @ '' - AI Agent'')))
   \<and> (description_arg = Some d \<and> d \<noteq> [] \<longrightarrow>
      payload_field (register_request wallet name description_arg) ''description'' =
        Some (JStr d))
   \<and> req_url (register_request wallet name description_arg) =
        ''https://api.saidprotocol.com/api/register/pending''
   \<and> req_method (register_request wallet name description_arg) = Some ''POST''
   \<and> (urlopen w (register_request wallet name description_arg) = Inl e \<longrightarrow>
      RegisterAgentTool_execute w wallet name description_arg =
        Inr (Dumps (JDict [(''success'', JBool False), (''error'', JStr (str_exn e))])))
   \<and> (urlopen w (register_request wallet name description_arg) = Inr body
        \<and> json_loads w body = Inr (JDict kvs) \<longrightarrow>
      RegisterAgentTool_execute w wallet name description_arg =
        Inr (Dumps (JDict [(''success'', JBool True), (''wallet'', field_or_null kvs ''wallet''),
               (''pda'', field_or_null kvs ''pda''), (''profile'', field_or_null kvs ''profile''),
               (''status'', JStr ''PENDING'')])))
   \<and> (other \<noteq> register_request wallet name description_arg \<longrightarrow>
      RegisterAgentTool_execute (w\<lparr>urlopen := (urlopen w)(other := outcome)\<rparr>)
          wallet name description_arg =
        RegisterAgentTool_execute w wallet name description_arg)"
proof (intro conjI impI)
  assume "description_arg = None \<or> description_arg = Some []"
  then show "payload_field (register_request wallet name description_arg) ''description'' =
        Some (JStr (name @ '' - AI Agent''))"
    by (auto simp add: payload_field_def register_request_def)
next
  assume "description_arg = Some d \<and> d \<noteq> []"
  then show "payload_field (register_request wallet name description_arg) ''description'' =
        Some (JStr d)"
    by (simp add: payload_field_def register_request_def)
next
  show "req_url (register_request wallet name description_arg) =
        ''https://api.saidprotocol.com/api/register/pending''"
    by (simp add: register_request_def SAID_API_def Let_def)
next
  show "req_method (register_request wallet name description_arg) = Some ''POST''"
    by (simp add: register_request_def Let_def)
next
  assume "urlopen w (register_request wallet name description_arg) = Inl e"
  then show "RegisterAgentTool_execute w wallet name description_arg =
        Inr (Dumps (JDict [(''success'', JBool False), (''error'', JStr (str_exn e))]))"
    by (rule register_fault)
next
  assume "urlopen w (register_request wallet name description_arg) = Inr body
        \<and> json_loads w body = Inr (JDict kvs)"
  then show "RegisterAgentTool_execute w wallet name description_arg =
        Inr (Dumps (JDict [(''success'', JBool True), (''wallet'', field_or_null kvs ''wallet''),
               (''pda'', field_or_null kvs ''pda''), (''profile'', field_or_null kvs ''profile''),
               (''status'', JStr ''PENDING'')]))"
    by (simp add: register_ok register_reply_dict)
next
  assume "other \<noteq> register_request wallet name description_arg"
  then show "RegisterAgentTool_execute (w\<lparr>urlopen := (urlopen w)(other := outcome)\<rparr>)
          wallet name description_arg =
        RegisterAgentTool_execute w wallet name description_arg"
    by (rule register_other_requests)
qed

theorem C4_register_description_witness:
  "payload_field (register_request ''W1'' ''Bot1'' (Some [])) ''description'' =
     Some (JStr ''Bot1 - AI Agent'')
   \<and> payload_field (register_request ''W1'' ''Bot1'' None) ''description'' =
     Some (JStr ''Bot1 - AI Agent'')
   \<and> payload_field (register_request ''W1'' ''Bot1'' (Some ''Trading bot'')) ''description'' =
     Some (JStr ''Trading bot'')
   \<and> RegisterAgentTool_execute picky_registry ''W1'' ''Bot1'' (Some []) =
     Inr (Dumps (JDict [(''success'', JBool True), (''wallet'', JStr ''W1''),
            (''pda'', JStr ''P1''), (''profile'', JNull), (''status'', JStr ''PENDING'')]))
   \<and> RegisterAgentTool_execute picky_registry ''W1'' ''Bot1'' (Some ''Trading bot'') =
     Inr (Dumps (JDict [(''success'', JBool False),
            (''error'', JStr ''HTTP Error 400: Bad Request'')]))
   \<and> RegisterAgentTool_execute
        (picky_registry\<lparr>urlopen := (urlopen picky_registry)
            (agents_request ''W1'' := Inr ''never read'')\<rparr>) ''W1'' ''Bot1'' None =
      RegisterAgentTool_execute picky_registry ''W1'' ''Bot1'' None"
  using
    C4_register_description [of "Some []" "''W1''" "''Bot1''" _ picky_registry _
      \<open>''{"wallet": "W1", "pda": "P1"}''\<close>
      "[(''wallet'', JStr ''W1''), (''pda'', JStr ''P1'')]"]
    C4_register_description [of None "''W1''" "''Bot1''" _ picky_registry _ _ _
      "agents_request ''W1''" "Inr ''never read''"]
    C4_register_description [of "Some ''Trading bot''" "''W1''" "''Bot1''" "''Trading bot''"
      picky_registry "HTTPError 400 ''HTTP Error 400: Bad Request'' ''bad description''"]
  by (simp add: picky_registry_def offline_def field_or_null_def payload_field_def
      register_request_def agents_request_def get_request_def SAID_API_def)

section \<open>Local identity: the scan of the candidates (C5)\<close>

text \<open>While \<^verbatim>\<open>Path.exists\<close> answers, the loop finds the content of the first candidate
  that yields one.\<close>

lemma scan_paths_map_filter:
  "exists_answers w ps \<Longrightarrow>
   scan_paths w ps =
     Inr (case List.map_filter (readable_content w) ps of [] \<Rightarrow> None | c # cs \<Rightarrow> Some c)"
proof (induction ps)
  case Nil
  show ?case by (simp add: List.map_filter_simps)
next
  case (Cons p ps)
  from Cons.prems obtain found where found: "path_exists w p = Inr found"
    by (cases "path_exists w p") (simp_all add: exists_answers_def)
  from Cons.prems have rest: "exists_answers w ps"
    by (simp add: exists_answers_def)
  show ?case
  proof (cases "readable_content w p")
    case None
    with found have "scan_paths w (p # ps) = scan_paths w ps"
      by (cases found) (simp_all add: readable_content_def)
    with None Cons.IH [OF rest] show ?thesis by (simp add: List.map_filter_simps)
  next
    case (Some c)
    with found have "scan_paths w (p # ps) = Inr (Some c)"
      by (cases found) (simp_all add: readable_content_def)
    with Some show ?thesis by (simp add: List.map_filter_simps)
  qed
qed

text \<open>
  What \<^verbatim>\<open>GetMyIdentityTool.execute\<close> does while \<^verbatim>\<open>Path.home()\<close> and \<^verbatim>\<open>Path.exists\<close>
  answer: it goes through \<^verbatim>\<open><workspace>/said.json\<close>, \<^verbatim>\<open><home>/.nanobot/said.json\<close>,
  \<^verbatim>\<open><home>/.config/said/identity.json\<close> in this order and returns, unparsed, the content of
  the first candidate that exists and can be opened and read; a candidate that exists but
  cannot be opened is skipped; when no candidate yields content the result is the error
  document.
\<close>

lemma identity_first_readable:
  assumes "home w = Inr h"
    and "exists_answers w (identity_paths workspace h)"
  shows "GetMyIdentityTool_execute w workspace =
     (case List.map_filter (readable_content w)
             [workspace @ [''said.json''],
              h @ [''.nanobot'', ''said.json''],
              h @ [''.config'', ''said'', ''identity.json'']] of
        c # cs \<Rightarrow> Inr (Raw c)
      | [] \<Rightarrow> Inr (Dumps (JDict [(''error'',
          JStr ''SAID identity not found. Register first with register_said_agent.'')])))"
proof -
  have paths: "identity_paths workspace h =
      [workspace @ [''said.json''],
       h @ [''.nanobot'', ''said.json''],
       h @ [''.config'', ''said'', ''identity.json'']]"
    by (simp add: identity_paths_def)
  from assms(2) have "scan_paths w (identity_paths workspace h) =
      Inr (case List.map_filter (readable_content w) (identity_paths workspace h) of
             [] \<Rightarrow> None | c # cs \<Rightarrow> Some c)"
    by (rule scan_paths_map_filter)
  with assms(1) have "GetMyIdentityTool_execute w workspace =
     (case List.map_filter (readable_content w) (identity_paths workspace h) of
        c # cs \<Rightarrow> Inr (Raw c)
      | [] \<Rightarrow> Inr (Dumps (JDict [(''error'',
          JStr ''SAID identity not found. Register first with register_said_agent.'')])))"
    by (simp add: GetMyIdentityTool_execute_def error_json_def split: list.splits)
  then show ?thesis by (simp only: paths)
qed

lemma identity_laptop:
  "GetMyIdentityTool_execute laptop [''/'', ''srv'', ''bot''] = Inr (Raw ''{wallet: not even JSON'')"
  by (simp add: GetMyIdentityTool_execute_def identity_paths_def laptop_def offline_def)

lemma identity_offline:
  "GetMyIdentityTool_execute offline [''/'', ''srv'', ''bot''] =
     Inr (Dumps (JDict [(''error'',
        JStr ''SAID identity not found. Register first with register_said_agent.'')]))"
  by (simp add: GetMyIdentityTool_execute_def identity_paths_def offline_def error_json_def)

text \<open>
  Claim C5. \<^verbatim>\<open>GetMyIdentityTool.execute\<close> returns the content of the first candidate that
  exists and can be opened, skips a candidate that cannot be opened, and returns the error
  document when no candidate yields content.

  The code misses this when \<^verbatim>\<open>path.exists()\<close> raises: the call stands outside the
  \<^verbatim>\<open>try\<close> that guards \<^verbatim>\<open>open\<close>. In \<open>locked_nanobot\<close> no candidate file exists and
  \<^verbatim>\<open>~/.nanobot\<close> may not be searched: the first candidate is answered \<^verbatim>\<open>False\<close>, the check of
  the second raises \<^verbatim>\<open>PermissionError\<close>, and \<^verbatim>\<open>execute\<close> raises it instead of returning the
  error document.
\<close>

theorem C5_identity_exists_raises:
  "home locked_nanobot = Inr [''/'', ''home'', ''bot'']
   \<and> List.map_filter (readable_content locked_nanobot)
        (identity_paths [''/'', ''srv'', ''bot''] [''/'', ''home'', ''bot'']) = []
   \<and> path_exists locked_nanobot [''/'', ''srv'', ''bot'', ''said.json''] = Inr False
   \<and> path_exists locked_nanobot [''/'', ''home'', ''bot'', ''.nanobot'', ''said.json''] =
       Inl (OtherException (''[Errno 13] Permission denied: ''
                            @ quoted ''/home/bot/.nanobot/said.json''))
   \<and> GetMyIdentityTool_execute locked_nanobot [''/'', ''srv'', ''bot''] =
       Inl (OtherException (''[Errno 13] Permission denied: ''
                            @ quoted ''/home/bot/.nanobot/said.json''))"
  by (simp add: GetMyIdentityTool_execute_def identity_paths_def locked_nanobot_def
      offline_def readable_content_def List.map_filter_simps)

section \<open>Verification: a record was found (C8)\<close>

lemma verify_reply_dict:
  "verify_reply wallet (JDict kvs) =
     Inr (Dumps (JDict [(''verified'', JBool True), (''name'', field_or_null kvs ''name''),
            (''wallet'', field_or_null kvs ''wallet''), (''pda'', field_or_null kvs ''pda''),
            (''isVerified'', field_or_null kvs ''isVerified''),
            (''reputationScore'', field_or_null kvs ''reputationScore''),
            (''description'', field_or_null kvs ''description''),
            (''profile'', JStr (''https://www.saidprotocol.com/agent.html?wallet='' @ wallet))]))"
  by (simp add: verify_reply_def field_or_null_def)

lemma verify_ok:
  "urlopen w (agents_request wallet) = Inr body \<Longrightarrow> json_loads w body = Inr agent \<Longrightarrow>
   VerifyAgentTool_execute w wallet = try_except (verify_reply wallet agent) verify_handler"
  by (simp add: VerifyAgentTool_execute_def loads_def)

text \<open>
  Claim C8. On a successful response whose body parses as a JSON object,
  \<^verbatim>\<open>VerifyAgentTool.execute\<close> returns \<^verbatim>\<open>verified: true\<close> whatever the object holds: the six
  fields are read with defaulting lookups, a field missing upstream is \<^verbatim>\<open>null\<close> in the
  result, and \<^verbatim>\<open>isVerified\<close> is passed on as it came.
\<close>

theorem C8_verify_record_found:
  "(urlopen w (agents_request wallet) = Inr body \<and> json_loads w body = Inr (JDict kvs) \<longrightarrow>
   VerifyAgentTool_execute w wallet =
     Inr (Dumps (JDict [(''verified'', JBool True), (''name'', field_or_null kvs ''name''),
            (''wallet'', field_or_null kvs ''wallet''), (''pda'', field_or_null kvs ''pda''),
            (''isVerified'', field_or_null kvs ''isVerified''),
            (''reputationScore'', field_or_null kvs ''reputationScore''),
            (''description'', field_or_null kvs ''description''),
            (''profile'', JStr (''https://www.saidprotocol.com/agent.html?wallet='' @ wallet))])))
   \<and> (\<forall>k. k \<notin> set (map fst kvs) \<longrightarrow> field_or_null kvs k = JNull)
   \<and> (\<forall>k v. map_of kvs k = Some v \<longrightarrow> field_or_null kvs k = v)"
proof (intro impI conjI allI)
  assume a: "urlopen w (agents_request wallet) = Inr body \<and> json_loads w body = Inr (JDict kvs)"
  then show "VerifyAgentTool_execute w wallet =
     Inr (Dumps (JDict [(''verified'', JBool True), (''name'', field_or_null kvs ''name''),
            (''wallet'', field_or_null kvs ''wallet''), (''pda'', field_or_null kvs ''pda''),
            (''isVerified'', field_or_null kvs ''isVerified''),
            (''reputationScore'', field_or_null kvs ''reputationScore''),
            (''description'', field_or_null kvs ''description''),
            (''profile'', JStr (''https://www.saidprotocol.com/agent.html?wallet='' @ wallet))]))"
    by (simp add: verify_ok verify_reply_dict)
next
  fix k assume "k \<notin> set (map fst kvs)"
  then have "map_of kvs k = None" by (simp add: map_of_eq_None_iff)
  then show "field_or_null kvs k = JNull" by (simp add: field_or_null_def)
next
  fix k v assume "map_of kvs k = Some v"
  then show "field_or_null kvs k = v" by (simp add: field_or_null_def)
qed

theorem C8_verify_record_found_witness:
  \<open>VerifyAgentTool_execute sparse_registry ''W1'' =
     Inr (Dumps (JDict [(''verified'', JBool True), (''name'', JNull),
            (''wallet'', JNull), (''pda'', JNull),
            (''isVerified'', JBool False),
            (''reputationScore'', JNull),
            (''description'', JNull),
            (''profile'', JStr ''https://www.saidprotocol.com/agent.html?wallet=W1'')]))\<close>
  using C8_verify_record_found [of sparse_registry "''W1''"
      \<open>''{"isVerified": false, "status": "REJECTED", "success": false}''\<close>
      "[(''isVerified'', JBool False), (''status'', JStr ''REJECTED''), (''success'', JBool False)]"]
  by (simp add: sparse_registry_def offline_def field_or_null_def)

section \<open>Registration: the acknowledgement (C10)\<close>

text \<open>
  Claim C10. When the response to the registration POST parses as a JSON object,
  \<^verbatim>\<open>RegisterAgentTool.execute\<close> returns \<^verbatim>\<open>success: true\<close> and the status \<^verbatim>\<open>"PENDING"\<close>
  whatever the object holds (its own \<^verbatim>\<open>status\<close> and \<^verbatim>\<open>success\<close> fields are not read),
  and a missing \<^verbatim>\<open>wallet\<close>, \<^verbatim>\<open>pda\<close> or \<^verbatim>\<open>profile\<close> is \<^verbatim>\<open>null\<close> in the result.
\<close>

theorem C10_register_pending:
  "(urlopen w (register_request wallet name description_arg) = Inr body
     \<and> json_loads w body = Inr (JDict kvs) \<longrightarrow>
   RegisterAgentTool_execute w wallet name description_arg =
     Inr (Dumps (JDict [(''success'', JBool True), (''wallet'', field_or_null kvs ''wallet''),
            (''pda'', field_or_null kvs ''pda''), (''profile'', field_or_null kvs ''profile''),
            (''status'', JStr ''PENDING'')])))
   \<and> (\<forall>k. k \<notin> set (map fst kvs) \<longrightarrow> field_or_null kvs k = JNull)"
proof (intro impI conjI allI)
  assume "urlopen w (register_request wallet name description_arg) = Inr body
     \<and> json_loads w body = Inr (JDict kvs)"
  then show "RegisterAgentTool_execute w wallet name description_arg =
     Inr (Dumps (JDict [(''success'', JBool True), (''wallet'', field_or_null kvs ''wallet''),
            (''pda'', field_or_null kvs ''pda''), (''profile'', field_or_null kvs ''profile''),
            (''status'', JStr ''PENDING'')]))"
    by (simp add: RegisterAgentTool_execute_def loads_def register_reply_dict)
next
  fix k assume "k \<notin> set (map fst kvs)"
  then have "map_of kvs k = None" by (simp add: map_of_eq_None_iff)
  then show "field_or_null kvs k = JNull" by (simp add: field_or_null_def)
qed

theorem C10_register_pending_witness:
  \<open>RegisterAgentTool_execute sparse_registry ''W1'' ''Bot1'' None =
     Inr (Dumps (JDict [(''success'', JBool True), (''wallet'', JNull),
            (''pda'', JNull), (''profile'', JNull),
            (''status'', JStr ''PENDING'')]))\<close>
  using C10_register_pending [of sparse_registry "''W1''" "''Bot1''" None
      \<open>''{"isVerified": false, "status": "REJECTED", "success": false}''\<close>
      "[(''isVerified'', JBool False), (''status'', JStr ''REJECTED''), (''success'', JBool False)]"]
  by (simp add: sparse_registry_def offline_def field_or_null_def)

section \<open>Balance: the paths of the reply\<close>

lemma balance_fault:
  "urlopen w (balance_request w address) = Inl e \<Longrightarrow>
   GetBalanceTool_execute w address = Inr (Dumps (JDict [(''error'', JStr (str_exn e))]))"
  by (simp add: GetBalanceTool_execute_def error_json_def)

lemma balance_malformed:
  "urlopen w (balance_request w address) = Inr body \<Longrightarrow> json_loads w body = Inl msg \<Longrightarrow>
   GetBalanceTool_execute w address = Inr (Dumps (JDict [(''error'', JStr msg)]))"
  by (simp add: GetBalanceTool_execute_def loads_def error_json_def)

lemma balance_parsed:
  "urlopen w (balance_request w address) = Inr body \<Longrightarrow> json_loads w body = Inr data \<Longrightarrow>
   GetBalanceTool_execute w address =
     try_except (balance_reply w address data) (\<lambda>e. Inr (error_json [] (str_exn e)))"
  by (simp add: GetBalanceTool_execute_def loads_def)

lemma balance_reply_no_result:
  "''result'' \<notin> set (map fst kvs) \<Longrightarrow>
   balance_reply w address (JDict kvs) =
     Inr (Dumps (JDict [(''error'', case map_of kvs ''error'' of Some v \<Rightarrow> v
                                      | None \<Rightarrow> JStr ''Unknown error'')]))"
  by (simp add: balance_reply_def)

text \<open>
  The success path: with an integer lamport count \<open>L\<close> under \<^verbatim>\<open>result.value\<close>, the result
  holds the float that \<^verbatim>\<open>L / 1_000_000_000\<close> gives and \<open>L\<close> itself; when that division
  raises its \<^verbatim>\<open>OverflowError\<close>, the result is an error document.
\<close>

lemma balance_success:
  assumes "urlopen w (balance_request w address) = Inr body"
    and "json_loads w body = Inr (JDict kvs)"
    and "map_of kvs ''result'' = Some (JDict rs)"
    and "map_of rs ''value'' = Some (JInt L)"
  shows "GetBalanceTool_execute w address =
     (case int_truediv w L 1000000000 of
        Some sol \<Rightarrow>
          Inr (Dumps (JDict [(''address'', JStr address), (''balance_sol'', JFloat sol),
                             (''balance_lamports'', JInt L)]))
      | None \<Rightarrow>
          Inr (Dumps (JDict [(''error'',
                 JStr ''integer division result too large for a float'')])))"
proof -
  from assms(3) have "(''result'', JDict rs) \<in> set kvs" by (rule map_of_SomeD)
  then have "''result'' \<in> set (map fst kvs)" by force
  with assms(3,4) have "balance_reply w address (JDict kvs) =
     (case int_truediv w L 1000000000 of
        Some sol \<Rightarrow>
          Inr (Dumps (JDict [(''address'', JStr address), (''balance_sol'', JFloat sol),
                             (''balance_lamports'', JInt L)]))
      | None \<Rightarrow> Inl (OtherException ''integer division result too large for a float''))"
    by (simp add: balance_reply_def split: option.splits)
  with assms(1,2) show ?thesis
    by (simp add: balance_parsed error_json_def split: option.splits)
qed

section \<open>Balance: the conversion to SOL (C2)\<close>

lemma float_value_float_of: "binary64 q \<Longrightarrow> float_value (float_of q) = Some q"
  by (simp add: float_of_def Abs_finite64_inverse)

lemma float_value_binary64: "float_value f = Some x \<Longrightarrow> binary64 x"
  using Rep_finite64 by (cases f) auto

lemma binary64_three_halves: "binary64 (3 / 2)"
  unfolding binary64_def
  by (rule exI [of _ 3], rule exI [of _ 1]) simp

lemma binary64_nano: "binary64 (4835703278458517 / 2 ^ 82)"
  unfolding binary64_def
  by (rule exI [of _ 4835703278458517], rule exI [of _ 82]) simp

text \<open>A binary64 value that equals L / 10^9 forces 5^9 to divide L.\<close>

lemma binary64_quotient_dvd:
  assumes "binary64 (of_int L / 1000000000)"
  shows "(1953125 :: int) dvd L"
proof -
  from assms obtain m :: int and k :: nat where
    mk: "(of_int L / 1000000000 :: rat) = of_int m / 2 ^ k
         \<or> (of_int L / 1000000000 :: rat) = of_int m * 2 ^ k"
    unfolding binary64_def by blast
  then show ?thesis
  proof
    assume "(of_int L / 1000000000 :: rat) = of_int m / 2 ^ k"
    then have "(of_int L :: rat) * 2 ^ k = of_int m * 1000000000"
      by (simp add: field_simps)
    then have "(of_int (L * 2 ^ k) :: rat) = of_int (m * 1000000000)"
      by simp
    then have eq: "L * 2 ^ k = m * 1000000000"
      by (simp only: of_int_eq_iff)
    have "(1953125 :: int) dvd m * 1000000000" by simp
    with eq have d: "(1953125 :: int) dvd L * 2 ^ k" by simp
    have "coprime (1953125 :: int) (2 ^ k)"
      by (rule coprime_power_right_iff [THEN iffD2]) simp
    with d show ?thesis
      by (simp add: coprime_dvd_mult_left_iff)
  next
    assume "(of_int L / 1000000000 :: rat) = of_int m * 2 ^ k"
    then have "(of_int L :: rat) = of_int m * 2 ^ k * 1000000000"
      by (simp add: field_simps)
    then have "(of_int L :: rat) = of_int (m * 2 ^ k * 1000000000)"
      by simp
    then have "L = m * 2 ^ k * 1000000000"
      by (simp only: of_int_eq_iff)
    then show ?thesis by simp
  qed
qed

lemma not_binary64_nano: "\<not> binary64 (1 / 1000000000)"
proof
  assume "binary64 (1 / 1000000000)"
  then have "binary64 (of_int 1 / 1000000000)" by simp
  then have "(1953125 :: int) dvd 1" by (rule binary64_quotient_dvd)
  then show False by simp
qed

lemma nearest64_self: "binary64 q \<Longrightarrow> nearest64 q q"
  by (simp add: nearest64_def)

lemma nearest64_exact: "nearest64 q x \<Longrightarrow> binary64 q \<Longrightarrow> x = q"
  unfolding nearest64_def by (auto dest: spec [of _ q])

lemma huge_lamports_nonneg: "0 \<le> huge_lamports"
  by (simp add: huge_lamports_def)

text \<open>
  Claim C2, as amended. For every non-negative integer lamport count \<open>L\<close> in a successful
  response, when \<^verbatim>\<open>L / 1_000_000_000\<close> returns a float the result holds that float as
  \<^verbatim>\<open>balance_sol\<close> and \<open>L\<close> itself as \<^verbatim>\<open>balance_lamports\<close>; when the division raises its
  \<^verbatim>\<open>OverflowError\<close> the result is an error document. The float is the exact quotient
  whenever the quotient is a binary64 value and the division rounds to nearest (as for
  \<open>L\<close> = 1 500 000 000 and 1.5), and it can be the exact quotient only when 5^9 = 1953125
  divides \<open>L\<close>.
\<close>

theorem C2_balance_conversion:
  "(urlopen w (balance_request w address) = Inr body \<and> json_loads w body = Inr (JDict kvs)
      \<and> map_of kvs ''result'' = Some (JDict rs) \<and> map_of rs ''value'' = Some (JInt L)
      \<and> 0 \<le> L \<and> int_truediv w L 1000000000 = Some sol \<longrightarrow>
    GetBalanceTool_execute w address =
      Inr (Dumps (JDict [(''address'', JStr address), (''balance_sol'', JFloat sol),
                         (''balance_lamports'', JInt L)])))
   \<and> (urlopen w (balance_request w address) = Inr body \<and> json_loads w body = Inr (JDict kvs)
      \<and> map_of kvs ''result'' = Some (JDict rs) \<and> map_of rs ''value'' = Some (JInt L)
      \<and> 0 \<le> L \<and> int_truediv w L 1000000000 = None \<longrightarrow>
    GetBalanceTool_execute w address =
      Inr (Dumps (JDict [(''error'',
             JStr ''integer division result too large for a float'')])))
   \<and> (float_value sol = Some x \<and> nearest64 (of_int L / 1000000000) x
      \<and> binary64 (of_int L / 1000000000) \<longrightarrow> x = of_int L / 1000000000)
   \<and> (float_value sol = Some (of_int L / 1000000000) \<longrightarrow> 1953125 dvd L)"
proof (intro conjI impI)
  assume "urlopen w (balance_request w address) = Inr body \<and> json_loads w body = Inr (JDict kvs)
      \<and> map_of kvs ''result'' = Some (JDict rs) \<and> map_of rs ''value'' = Some (JInt L)
      \<and> 0 \<le> L \<and> int_truediv w L 1000000000 = Some sol"
  then show "GetBalanceTool_execute w address =
      Inr (Dumps (JDict [(''address'', JStr address), (''balance_sol'', JFloat sol),
                         (''balance_lamports'', JInt L)]))"
    by (simp add: balance_success)
next
  assume "urlopen w (balance_request w address) = Inr body \<and> json_loads w body = Inr (JDict kvs)
      \<and> map_of kvs ''result'' = Some (JDict rs) \<and> map_of rs ''value'' = Some (JInt L)
      \<and> 0 \<le> L \<and> int_truediv w L 1000000000 = None"
  then show "GetBalanceTool_execute w address =
      Inr (Dumps (JDict [(''error'',
             JStr ''integer division result too large for a float'')]))"
    by (simp add: balance_success)
next
  assume "float_value sol = Some x \<and> nearest64 (of_int L / 1000000000) x
      \<and> binary64 (of_int L / 1000000000)"
  then have "nearest64 (of_int L / 1000000000) x" and "binary64 (of_int L / 1000000000)"
    by simp_all
  then show "x = of_int L / 1000000000"
    by (rule nearest64_exact)
next
  assume "float_value sol = Some (of_int L / 1000000000)"
  then have "binary64 (of_int L / 1000000000)" by (rule float_value_binary64)
  then show "1953125 dvd L" by (rule binary64_quotient_dvd)
qed

theorem C2_balance_conversion_witness:
  "GetBalanceTool_execute sol_reply ''4Nd1mYvQ'' =
     Inr (Dumps (JDict [(''address'', JStr ''4Nd1mYvQ''),
                        (''balance_sol'', JFloat (float_of (3 / 2))),
                        (''balance_lamports'', JInt 1500000000)]))
   \<and> float_value (float_of (3 / 2)) = Some (3 / 2)
   \<and> binary64 (of_int 1500000000 / 1000000000)
   \<and> nearest64 (of_int 1500000000 / 1000000000) (3 / 2)
   \<and> (3 / 2 :: rat) = of_int 1500000000 / 1000000000
   \<and> (1953125 :: int) dvd 1500000000
   \<and> GetBalanceTool_execute overflow_reply ''4Nd1mYvQ'' =
     Inr (Dumps (JDict [(''error'',
            JStr ''integer division result too large for a float'')]))"
  using
    C2_balance_conversion [of sol_reply "''4Nd1mYvQ''"
      \<open>''{"jsonrpc":"2.0","result":{"context":{"slot":1},"value":1500000000},"id":1}''\<close>
      "[(''jsonrpc'', JStr ''2.0''),
        (''result'', JDict [(''context'', JDict [(''slot'', JInt 1)]),
                            (''value'', JInt 1500000000)]),
        (''id'', JInt 1)]"
      "[(''context'', JDict [(''slot'', JInt 1)]), (''value'', JInt 1500000000)]"
      1500000000 "float_of (3 / 2)" "3 / 2"]
    C2_balance_conversion [of overflow_reply "''4Nd1mYvQ''"
      overflow_body
      "[(''jsonrpc'', JStr ''2.0''),
        (''result'', JDict [(''context'', JDict [(''slot'', JInt 1)]),
                            (''value'', JInt huge_lamports)]),
        (''id'', JInt 1)]"
      "[(''context'', JDict [(''slot'', JInt 1)]), (''value'', JInt huge_lamports)]"
      huge_lamports]
    float_value_float_of [OF binary64_three_halves] huge_lamports_nonneg
    binary64_three_halves nearest64_self [OF binary64_three_halves]
  by (simp add: sol_reply_def overflow_reply_def offline_def)

text \<open>
  Claim C2 as stated, an exact quotient for every \<open>L\<close>, fails at \<open>L\<close> = 1: no float has
  the value 1 / 10^9. The float returned there is 4835703278458517 / 2^82, within half a
  unit in the last place of the quotient and different from it.
\<close>

theorem C2_balance_conversion_counterexample:
  \<open>urlopen dust_reply (balance_request dust_reply ''4Nd1mYvQ'') =
     Inr ''{"jsonrpc":"2.0","result":{"context":{"slot":1},"value":1},"id":1}''
   \<and> GetBalanceTool_execute dust_reply ''4Nd1mYvQ'' =
     Inr (Dumps (JDict [(''address'', JStr ''4Nd1mYvQ''),
                        (''balance_sol'', JFloat (float_of (4835703278458517 / 2 ^ 82))),
                        (''balance_lamports'', JInt 1)]))
   \<and> float_value (float_of (4835703278458517 / 2 ^ 82)) = Some (4835703278458517 / 2 ^ 82)
   \<and> (4835703278458517 / 2 ^ 82 :: rat) \<noteq> 1 / 1000000000
   \<and> \<bar>4835703278458517 / 2 ^ 82 - 1 / 1000000000 :: rat\<bar> \<le> 1 / 2 ^ 83
   \<and> (\<forall>f. float_value f \<noteq> Some (1 / 1000000000))\<close>
proof (intro conjI allI)
  show \<open>urlopen dust_reply (balance_request dust_reply ''4Nd1mYvQ'') =
     Inr ''{"jsonrpc":"2.0","result":{"context":{"slot":1},"value":1},"id":1}''\<close>
    by (simp add: dust_reply_def offline_def)
  show "GetBalanceTool_execute dust_reply ''4Nd1mYvQ'' =
     Inr (Dumps (JDict [(''address'', JStr ''4Nd1mYvQ''),
                        (''balance_sol'', JFloat (float_of (4835703278458517 / 2 ^ 82))),
                        (''balance_lamports'', JInt 1)]))"
    by (simp add: GetBalanceTool_execute_def loads_def balance_reply_def
        dust_reply_def offline_def)
  show "float_value (float_of (4835703278458517 / 2 ^ 82)) = Some (4835703278458517 / 2 ^ 82)"
    by (rule float_value_float_of [OF binary64_nano])
  show "(4835703278458517 / 2 ^ 82 :: rat) \<noteq> 1 / 1000000000"
    by (simp add: field_simps)
  show "\<bar>4835703278458517 / 2 ^ 82 - 1 / 1000000000 :: rat\<bar> \<le> 1 / 2 ^ 83"
    by (simp add: field_simps abs_if)
  fix f show "float_value f \<noteq> Some (1 / 1000000000)"
    using float_value_binary64 [of f "1 / 1000000000"] not_binary64_nano by blast
qed

section \<open>Balance: neither result nor error (C9)\<close>

text \<open>
  Claim C9, as amended. When the response of the balance request parses as a JSON
  \<^emph>\<open>object\<close> that has neither a \<^verbatim>\<open>result\<close> nor an \<^verbatim>\<open>error\<close> field,
  \<^verbatim>\<open>GetBalanceTool.execute\<close> returns exactly \<^verbatim>\<open>{"error": "Unknown error"}\<close>.
\<close>

theorem C9_balance_unknown_error:
  "urlopen w (balance_request w address) = Inr body \<and> json_loads w body = Inr (JDict kvs)
     \<and> ''result'' \<notin> set (map fst kvs) \<and> ''error'' \<notin> set (map fst kvs) \<longrightarrow>
   GetBalanceTool_execute w address = Inr (Dumps (JDict [(''error'', JStr ''Unknown error'')]))"
proof
  assume a: "urlopen w (balance_request w address) = Inr body \<and> json_loads w body = Inr (JDict kvs)
     \<and> ''result'' \<notin> set (map fst kvs) \<and> ''error'' \<notin> set (map fst kvs)"
  then have "map_of kvs ''error'' = None"
    by (simp add: map_of_eq_None_iff)
  with a have "balance_reply w address (JDict kvs) =
      Inr (Dumps (JDict [(''error'', JStr ''Unknown error'')]))"
    by (simp add: balance_reply_no_result)
  with a show "GetBalanceTool_execute w address =
      Inr (Dumps (JDict [(''error'', JStr ''Unknown error'')]))"
    by (simp add: balance_parsed)
qed

theorem C9_balance_unknown_error_witness:
  "GetBalanceTool_execute empty_object_reply ''4Nd1mYvQ'' =
     Inr (Dumps (JDict [(''error'', JStr ''Unknown error'')]))"
  using C9_balance_unknown_error [of empty_object_reply "''4Nd1mYvQ''" "''{}''" "[]"]
  by (simp add: empty_object_reply_def offline_def)

text \<open>
  Claim C9 as stated, for every response that parses as JSON, fails on one that is not an
  object: the body \<^verbatim>\<open>[]\<close> parses, has neither field, and the result carries the message
  of the \<^verbatim>\<open>AttributeError\<close> of \<^verbatim>\<open>data.get\<close> instead.
\<close>

theorem C9_balance_unknown_error_counterexample:
  "urlopen array_reply (balance_request array_reply ''4Nd1mYvQ'') = Inr ''[]''
   \<and> json_loads array_reply ''[]'' = Inr (JList [])
   \<and> GetBalanceTool_execute array_reply ''4Nd1mYvQ'' =
       Inr (Dumps (JDict [(''error'',
              JStr (quoted ''list'' @ '' object has no attribute '' @ quoted ''get''))]))
   \<and> GetBalanceTool_execute array_reply ''4Nd1mYvQ'' \<noteq>
       Inr (Dumps (JDict [(''error'', JStr ''Unknown error'')]))"
  by (simp add: GetBalanceTool_execute_def loads_def balance_reply_def error_json_def
      array_reply_def offline_def quoted_def)

section \<open>Balance and trust: the error documents (C7)\<close>

lemma trust_fault:
  "urlopen w (trust_request wallet) = Inl e \<Longrightarrow>
   GetTrustScoreTool_execute w wallet = Inr (Dumps (JDict [(''error'', JStr (str_exn e))]))"
  by (simp add: GetTrustScoreTool_execute_def error_json_def)

text \<open>
  Claim C7, as amended. When the response of the balance request parses as a JSON object
  with an \<^verbatim>\<open>error\<close> field and \<^emph>\<open>no\<close> \<^verbatim>\<open>result\<close> field, \<^verbatim>\<open>GetBalanceTool.execute\<close> returns
  that error value unchanged under \<^verbatim>\<open>error\<close>; when the request raises, or its body does not
  parse, it returns \<^verbatim>\<open>{"error": message}\<close>; and \<^verbatim>\<open>GetTrustScoreTool.execute\<close> returns
  \<^verbatim>\<open>{"error": str(e)}\<close> for every exception of its request, status 404 included.
\<close>

theorem C7_balance_and_trust_errors:
  "(urlopen w (balance_request w address) = Inr body \<and> json_loads w body = Inr (JDict kvs)
      \<and> ''result'' \<notin> set (map fst kvs) \<and> map_of kvs ''error'' = Some err \<longrightarrow>
    GetBalanceTool_execute w address = Inr (Dumps (JDict [(''error'', err)])))
   \<and> (urlopen w (balance_request w address) = Inl e \<longrightarrow>
    GetBalanceTool_execute w address = Inr (Dumps (JDict [(''error'', JStr (str_exn e))])))
   \<and> (urlopen w (balance_request w address) = Inr body \<and> json_loads w body = Inl msg \<longrightarrow>
    GetBalanceTool_execute w address = Inr (Dumps (JDict [(''error'', JStr msg)])))
   \<and> (urlopen w (trust_request wallet) = Inl e' \<longrightarrow>
    GetTrustScoreTool_execute w wallet = Inr (Dumps (JDict [(''error'', JStr (str_exn e'))])))"
proof (intro conjI impI)
  assume "urlopen w (balance_request w address) = Inr body \<and> json_loads w body = Inr (JDict kvs)
      \<and> ''result'' \<notin> set (map fst kvs) \<and> map_of kvs ''error'' = Some err"
  then show "GetBalanceTool_execute w address = Inr (Dumps (JDict [(''error'', err)]))"
    by (simp add: balance_parsed balance_reply_no_result)
next
  assume "urlopen w (balance_request w address) = Inl e"
  then show "GetBalanceTool_execute w address =
      Inr (Dumps (JDict [(''error'', JStr (str_exn e))]))"
    by (rule balance_fault)
next
  assume "urlopen w (balance_request w address) = Inr body \<and> json_loads w body = Inl msg"
  then show "GetBalanceTool_execute w address = Inr (Dumps (JDict [(''error'', JStr msg)]))"
    by (simp add: balance_malformed)
next
  assume "urlopen w (trust_request wallet) = Inl e'"
  then show "GetTrustScoreTool_execute w wallet =
      Inr (Dumps (JDict [(''error'', JStr (str_exn e'))]))"
    by (rule trust_fault)
qed

theorem C7_balance_and_trust_errors_witness:
  "GetBalanceTool_execute rpc_error_reply ''4Nd1mYvQ'' =
     Inr (Dumps (JDict [(''error'', JDict [(''code'', JInt (- 32602)),
                                           (''message'', JStr ''Invalid param'')])]))
   \<and> GetBalanceTool_execute offline ''4Nd1mYvQ'' =
     Inr (Dumps (JDict [(''error'', JStr ''<urlopen error timed out>'')]))
   \<and> GetBalanceTool_execute html_reply ''4Nd1mYvQ'' =
     Inr (Dumps (JDict [(''error'', JStr ''Expecting value: line 1 column 1 (char 0)'')]))
   \<and> GetTrustScoreTool_execute registry_404 ''4Nd1mYvQ'' =
     Inr (Dumps (JDict [(''error'', JStr ''HTTP Error 404: Not Found'')]))"
  using
    C7_balance_and_trust_errors [of rpc_error_reply "''4Nd1mYvQ''"
      \<open>''{"jsonrpc":"2.0","error":{"code":-32602,"message":"Invalid param"},"id":1}''\<close>
      "[(''jsonrpc'', JStr ''2.0''),
        (''error'', JDict [(''code'', JInt (- 32602)), (''message'', JStr ''Invalid param'')]),
        (''id'', JInt 1)]"
      "JDict [(''code'', JInt (- 32602)), (''message'', JStr ''Invalid param'')]"]
    C7_balance_and_trust_errors [of offline "''4Nd1mYvQ''" _ _ _
      "OtherException ''<urlopen error timed out>''"]
    C7_balance_and_trust_errors [of html_reply "''4Nd1mYvQ''" "''<html>502 Bad Gateway</html>''"
      _ _ _ "''Expecting value: line 1 column 1 (char 0)''"]
    C7_balance_and_trust_errors [of registry_404 _ _ _ _ _ _ "''4Nd1mYvQ''"
      "HTTPError 404 ''HTTP Error 404: Not Found'' ''<h1>Not Found</h1>''"]
  by (simp add: rpc_error_reply_def offline_def html_reply_def registry_404_def)

text \<open>
  Claim C7 as stated, for every response that contains an \<^verbatim>\<open>error\<close> field, fails on a
  response that has a \<^verbatim>\<open>result\<close> field too: the code takes the \<^verbatim>\<open>result\<close> branch and never
  reads \<^verbatim>\<open>error\<close>. Here \<^verbatim>\<open>result\<close> is \<^verbatim>\<open>null\<close>, and the result carries the message of the
  \<^verbatim>\<open>TypeError\<close> of \<^verbatim>\<open>data["result"]["value"]\<close>.
\<close>

theorem C7_balance_and_trust_errors_counterexample:
  \<open>urlopen null_result_reply (balance_request null_result_reply ''4Nd1mYvQ'') =
     Inr ''{"result":null,"error":{"code":-32602,"message":"Invalid param"},"id":1}''
   \<and> json_loads null_result_reply
       ''{"result":null,"error":{"code":-32602,"message":"Invalid param"},"id":1}'' =
     Inr (JDict [(''result'', JNull),
                 (''error'', JDict [(''code'', JInt (- 32602)),
                                    (''message'', JStr ''Invalid param'')]),
                 (''id'', JInt 1)])
   \<and> GetBalanceTool_execute null_result_reply ''4Nd1mYvQ'' =
     Inr (Dumps (JDict [(''error'',
            JStr (quoted ''NoneType'' @ '' object is not subscriptable''))]))
   \<and> GetBalanceTool_execute null_result_reply ''4Nd1mYvQ'' \<noteq>
     Inr (Dumps (JDict [(''error'', JDict [(''code'', JInt (- 32602)),
                                           (''message'', JStr ''Invalid param'')])]))\<close>
  by (simp add: GetBalanceTool_execute_def loads_def balance_reply_def error_json_def
      null_result_reply_def offline_def quoted_def)

section \<open>Pass-through against reshaping (C6)\<close>

lemma lookup_ok:
  "urlopen w (agents_request wallet) = Inr body \<Longrightarrow>
   LookupAgentTool_execute w wallet = Inr (Raw body)"
  by (simp add: LookupAgentTool_execute_def)

lemma trust_ok:
  "urlopen w (trust_request wallet) = Inr body \<Longrightarrow>
   GetTrustScoreTool_execute w wallet = Inr (Raw body)"
  by (simp add: GetTrustScoreTool_execute_def)

lemma verify_reply_not_dict:
  "(\<forall>kvs. agent \<noteq> JDict kvs) \<Longrightarrow>
   verify_reply wallet agent =
     Inl (OtherException (quoted (type_name agent) @ '' object has no attribute '' @ quoted ''get''))"
  by (cases agent) (simp_all add: verify_reply_def)

lemma verify_not_object:
  assumes "urlopen w (agents_request wallet) = Inr body" and "\<not> parses_as_object w body"
  shows "\<exists>msg. VerifyAgentTool_execute w wallet =
           Inr (Dumps (JDict [(''verified'', JBool False), (''error'', JStr msg)]))"
proof (cases "json_loads w body")
  case (Inl m)
  with assms(1) have "VerifyAgentTool_execute w wallet =
      Inr (Dumps (JDict [(''verified'', JBool False), (''error'', JStr m)]))"
    by (simp add: VerifyAgentTool_execute_def loads_def error_json_def)
  then show ?thesis by blast
next
  case (Inr agent)
  with assms(2) have "\<forall>kvs. agent \<noteq> JDict kvs"
    by (auto simp add: parses_as_object_def)
  then have "verify_reply wallet agent =
     Inl (OtherException (quoted (type_name agent) @ '' object has no attribute '' @ quoted ''get''))"
    by (rule verify_reply_not_dict)
  with assms(1) Inr have "VerifyAgentTool_execute w wallet =
      Inr (Dumps (JDict [(''verified'', JBool False),
        (''error'', JStr (quoted (type_name agent) @ '' object has no attribute '' @ quoted ''get''))]))"
    by (simp add: verify_ok error_json_def)
  then show ?thesis by blast
qed

text \<open>
  Claim C6, as amended. On a successful response, \<^verbatim>\<open>LookupAgentTool.execute\<close> and
  \<^verbatim>\<open>GetTrustScoreTool.execute\<close> return the body as it came. \<^verbatim>\<open>VerifyAgentTool.execute\<close>
  returns the fixed fields \<^verbatim>\<open>verified, name, wallet, pda, isVerified, reputationScore,
  description, profile\<close> when the body parses as a JSON object, and
  \<^verbatim>\<open>{"verified": false, "error": message}\<close> when it does not.
\<close>

theorem C6_pass_through_and_reshape:
  "(urlopen w (agents_request wallet) = Inr body \<longrightarrow>
      LookupAgentTool_execute w wallet = Inr (Raw body))
   \<and> (urlopen w (trust_request wallet) = Inr body' \<longrightarrow>
      GetTrustScoreTool_execute w wallet = Inr (Raw body'))
   \<and> (urlopen w (agents_request wallet) = Inr body \<and> json_loads w body = Inr (JDict kvs) \<longrightarrow>
      VerifyAgentTool_execute w wallet =
        Inr (Dumps (JDict [(''verified'', JBool True), (''name'', field_or_null kvs ''name''),
               (''wallet'', field_or_null kvs ''wallet''), (''pda'', field_or_null kvs ''pda''),
               (''isVerified'', field_or_null kvs ''isVerified''),
               (''reputationScore'', field_or_null kvs ''reputationScore''),
               (''description'', field_or_null kvs ''description''),
               (''profile'',
                  JStr (''https://www.saidprotocol.com/agent.html?wallet='' @ wallet))])))
   \<and> (urlopen w (agents_request wallet) = Inr body \<and> \<not> parses_as_object w body \<longrightarrow>
      (\<exists>msg. VerifyAgentTool_execute w wallet =
         Inr (Dumps (JDict [(''verified'', JBool False), (''error'', JStr msg)]))))"
proof (intro conjI impI)
  assume "urlopen w (agents_request wallet) = Inr body"
  then show "LookupAgentTool_execute w wallet = Inr (Raw body)" by (rule lookup_ok)
next
  assume "urlopen w (trust_request wallet) = Inr body'"
  then show "GetTrustScoreTool_execute w wallet = Inr (Raw body')" by (rule trust_ok)
next
  assume "urlopen w (agents_request wallet) = Inr body \<and> json_loads w body = Inr (JDict kvs)"
  then show "VerifyAgentTool_execute w wallet =
        Inr (Dumps (JDict [(''verified'', JBool True), (''name'', field_or_null kvs ''name''),
               (''wallet'', field_or_null kvs ''wallet''), (''pda'', field_or_null kvs ''pda''),
               (''isVerified'', field_or_null kvs ''isVerified''),
               (''reputationScore'', field_or_null kvs ''reputationScore''),
               (''description'', field_or_null kvs ''description''),
               (''profile'',
                  JStr (''https://www.saidprotocol.com/agent.html?wallet='' @ wallet))]))"
    by (simp add: verify_ok verify_reply_dict)
next
  assume "urlopen w (agents_request wallet) = Inr body \<and> \<not> parses_as_object w body"
  then show "\<exists>msg. VerifyAgentTool_execute w wallet =
         Inr (Dumps (JDict [(''verified'', JBool False), (''error'', JStr msg)]))"
    by (simp add: verify_not_object)
qed

theorem C6_pass_through_and_reshape_witness:
  \<open>LookupAgentTool_execute sparse_registry ''W1'' =
     Inr (Raw ''{"isVerified": false, "status": "REJECTED", "success": false}'')
   \<and> GetTrustScoreTool_execute sparse_registry ''W1'' =
     Inr (Raw ''{"isVerified": false, "status": "REJECTED", "success": false}'')
   \<and> VerifyAgentTool_execute sparse_registry ''W1'' =
     Inr (Dumps (JDict [(''verified'', JBool True), (''name'', JNull),
            (''wallet'', JNull), (''pda'', JNull), (''isVerified'', JBool False),
            (''reputationScore'', JNull), (''description'', JNull),
            (''profile'', JStr ''https://www.saidprotocol.com/agent.html?wallet=W1'')]))
   \<and> (\<exists>msg. VerifyAgentTool_execute array_reply ''W1'' =
         Inr (Dumps (JDict [(''verified'', JBool False), (''error'', JStr msg)])))\<close>
  using
    C6_pass_through_and_reshape [of sparse_registry "''W1''"
      \<open>''{"isVerified": false, "status": "REJECTED", "success": false}''\<close>
      \<open>''{"isVerified": false, "status": "REJECTED", "success": false}''\<close>
      "[(''isVerified'', JBool False), (''status'', JStr ''REJECTED''), (''success'', JBool False)]"]
    C6_pass_through_and_reshape [of array_reply "''W1''" "''[]''"]
  by (simp add: sparse_registry_def array_reply_def offline_def field_or_null_def
      parses_as_object_def)

text \<open>
  Claim C6 as stated, that verification always gives the fixed field set on a successful
  response, fails when the body is not a JSON object: for the body \<^verbatim>\<open>[]\<close> the result has
  the fields \<^verbatim>\<open>verified\<close> and \<^verbatim>\<open>error\<close> only.
\<close>

theorem C6_pass_through_and_reshape_counterexample:
  "urlopen array_reply (agents_request ''W1'') = Inr ''[]''
   \<and> json_loads array_reply ''[]'' = Inr (JList [])
   \<and> VerifyAgentTool_execute array_reply ''W1'' =
       Inr (Dumps (JDict [(''verified'', JBool False),
              (''error'', JStr (quoted ''list'' @ '' object has no attribute '' @ quoted ''get''))]))
   \<and> result_fields (VerifyAgentTool_execute array_reply ''W1'') = [''verified'', ''error'']
   \<and> ''name'' \<notin> set (result_fields (VerifyAgentTool_execute array_reply ''W1''))"
  by (simp add: VerifyAgentTool_execute_def loads_def verify_reply_def error_json_def
      array_reply_def offline_def quoted_def result_fields_def)

section \<open>Failures become error documents (C1)\<close>

lemma error_document_Dumps: "error_document w (Dumps j) = is_error_object j"
  by (simp add: error_document_def)

lemma returns_error_json:
  "returns_error_document w (Inr (error_json flags msg))"
  by (simp add: returns_error_document_def error_document_Dumps error_json_def)

lemma result_field_error_json:
  "result_field k (Inr (error_json [(k, v)] msg)) = Some v"
  by (simp add: result_field_def error_json_def)

lemma parsing_tool_failure:
  assumes "request_fails w req \<or> reply_malformed w req \<or> reply_raises w req reshape"
    and "\<And>e. P (handler e)"
  shows "P (try_except
              (and_then (urlopen w req) (\<lambda>body. and_then (loads w body) reshape)) handler)"
proof (cases "urlopen w req")
  case (Inl e)
  with assms(2) show ?thesis by simp
next
  case body: (Inr body)
  show ?thesis
  proof (cases "json_loads w body")
    case (Inl msg)
    with body assms(2) show ?thesis by (simp add: loads_def)
  next
    case data: (Inr data)
    with body assms(1) have "isl (reshape data)"
      by (simp add: request_fails_def reply_malformed_def reply_raises_def)
    then obtain e where "reshape data = Inl e" by (cases "reshape data") simp_all
    with body data assms(2) show ?thesis by (simp add: loads_def)
  qed
qed

lemma balance_failure:
  assumes "request_fails w (balance_request w address)
           \<or> reply_malformed w (balance_request w address)
           \<or> reply_raises w (balance_request w address) (balance_reply w address)"
  shows "returns_error_document w (GetBalanceTool_execute w address)"
  unfolding GetBalanceTool_execute_def
  using assms by (rule parsing_tool_failure) (rule returns_error_json)

lemma balance_rpc_error:
  assumes "urlopen w (balance_request w address) = Inr body \<and> json_loads w body = Inr (JDict kvs)
           \<and> ''result'' \<notin> set (map fst kvs)"
  shows "returns_error_document w (GetBalanceTool_execute w address)"
  using assms
  by (simp add: balance_parsed balance_reply_no_result returns_error_document_def
      error_document_Dumps)

lemma verify_handler_document:
  "returns_error_document w (verify_handler e)
   \<and> result_field ''verified'' (verify_handler e) = Some (JBool False)"
  by (cases e) (simp_all add: returns_error_json result_field_error_json)

lemma verify_failure:
  assumes "request_fails w (agents_request wallet) \<or> reply_malformed w (agents_request wallet)
           \<or> reply_raises w (agents_request wallet) (verify_reply wallet)"
  shows "returns_error_document w (VerifyAgentTool_execute w wallet)
         \<and> result_field ''verified'' (VerifyAgentTool_execute w wallet) = Some (JBool False)"
  unfolding VerifyAgentTool_execute_def
  using assms by (rule parsing_tool_failure) (rule verify_handler_document)

lemma lookup_failure:
  assumes "request_fails w (agents_request wallet)"
  shows "returns_error_document w (LookupAgentTool_execute w wallet)"
proof (cases "urlopen w (agents_request wallet)")
  case (Inl e)
  then show ?thesis
    by (cases e) (simp_all add: LookupAgentTool_execute_def returns_error_json)
next
  case (Inr body)
  with assms show ?thesis by (simp add: request_fails_def)
qed

lemma trust_failure:
  assumes "request_fails w (trust_request wallet)"
  shows "returns_error_document w (GetTrustScoreTool_execute w wallet)"
proof (cases "urlopen w (trust_request wallet)")
  case (Inl e)
  then show ?thesis
    by (simp add: GetTrustScoreTool_execute_def returns_error_json)
next
  case (Inr body)
  with assms show ?thesis by (simp add: request_fails_def)
qed

lemma register_failure:
  assumes "request_fails w (register_request wallet name d)
           \<or> reply_malformed w (register_request wallet name d)
           \<or> reply_raises w (register_request wallet name d) register_reply"
  shows "returns_error_document w (RegisterAgentTool_execute w wallet name d)
         \<and> result_field ''success'' (RegisterAgentTool_execute w wallet name d)
             = Some (JBool False)"
  unfolding RegisterAgentTool_execute_def
  using assms
  by (rule parsing_tool_failure) (simp add: returns_error_json result_field_error_json)

lemma identity_failure:
  assumes "home w = Inr h \<and> exists_answers w (identity_paths workspace h)
           \<and> List.map_filter (readable_content w) (identity_paths workspace h) = []"
  shows "returns_error_document w (GetMyIdentityTool_execute w workspace)"
  using assms
  by (simp add: GetMyIdentityTool_execute_def scan_paths_map_filter returns_error_json)

lemma try_except_total: "(\<And>e. \<not> isl (h e)) \<Longrightarrow> \<not> isl (try_except m h)"
  by (cases m) simp_all

lemma verify_handler_total: "\<not> isl (verify_handler e)"
  by (cases e) simp_all

lemma lookup_handler_total: "\<not> isl (lookup_handler e)"
  by (cases e) simp_all

lemma never_raises:
  "\<not> isl (GetBalanceTool_execute w address)"
  "\<not> isl (VerifyAgentTool_execute w wallet)"
  "\<not> isl (LookupAgentTool_execute w wallet)"
  "\<not> isl (GetTrustScoreTool_execute w wallet)"
  "\<not> isl (RegisterAgentTool_execute w wallet name d)"
  by (simp_all add: GetBalanceTool_execute_def VerifyAgentTool_execute_def
      LookupAgentTool_execute_def GetTrustScoreTool_execute_def RegisterAgentTool_execute_def
      try_except_total verify_handler_total lookup_handler_total)

text \<open>
  Claim C1, as amended. The \<^verbatim>\<open>execute\<close> of the five tools that make a request never
  raises. When the request raises (a transport fault, a timeout, an HTTP error status),
  each of them returns a JSON object with an \<^verbatim>\<open>error\<close> field (with \<^verbatim>\<open>verified: false\<close> for
  verification, \<^verbatim>\<open>success: false\<close> for registration). So do the three that parse the
  response (balance, verification, registration) when the body is not JSON, and when it
  parses but handling the parsed value raises; so does the balance tool on an object
  without a \<^verbatim>\<open>result\<close> field. Profile lookup and trust lookup return the body of a
  successful response as it came, JSON or not. The identity tool returns a JSON object
  with an \<^verbatim>\<open>error\<close> field when \<^verbatim>\<open>Path.home()\<close> and \<^verbatim>\<open>Path.exists\<close> answer and no candidate
  file exists and can be read; nothing is said of it when one of them raises.
\<close>

theorem C1_failures_become_error_documents:
  "(request_fails w (balance_request w address)
      \<or> reply_malformed w (balance_request w address)
      \<or> reply_raises w (balance_request w address) (balance_reply w address) \<longrightarrow>
    returns_error_document w (GetBalanceTool_execute w address))
   \<and> (urlopen w (balance_request w address) = Inr body \<and> json_loads w body = Inr (JDict kvs)
      \<and> ''result'' \<notin> set (map fst kvs) \<longrightarrow>
    returns_error_document w (GetBalanceTool_execute w address))
   \<and> (request_fails w (agents_request wallet) \<or> reply_malformed w (agents_request wallet)
      \<or> reply_raises w (agents_request wallet) (verify_reply wallet) \<longrightarrow>
    returns_error_document w (VerifyAgentTool_execute w wallet)
    \<and> result_field ''verified'' (VerifyAgentTool_execute w wallet) = Some (JBool False))
   \<and> (request_fails w (agents_request wallet) \<longrightarrow>
    returns_error_document w (LookupAgentTool_execute w wallet))
   \<and> (urlopen w (agents_request wallet) = Inr profile \<longrightarrow>
    LookupAgentTool_execute w wallet = Inr (Raw profile))
   \<and> (request_fails w (trust_request wallet) \<longrightarrow>
    returns_error_document w (GetTrustScoreTool_execute w wallet))
   \<and> (urlopen w (trust_request wallet) = Inr trust \<longrightarrow>
    GetTrustScoreTool_execute w wallet = Inr (Raw trust))
   \<and> (request_fails w (register_request wallet name d)
      \<or> reply_malformed w (register_request wallet name d)
      \<or> reply_raises w (register_request wallet name d) register_reply \<longrightarrow>
    returns_error_document w (RegisterAgentTool_execute w wallet name d)
    \<and> result_field ''success'' (RegisterAgentTool_execute w wallet name d) = Some (JBool False))
   \<and> (home w = Inr h \<and> exists_answers w (identity_paths workspace h)
      \<and> List.map_filter (readable_content w) (identity_paths workspace h) = [] \<longrightarrow>
    returns_error_document w (GetMyIdentityTool_execute w workspace))
   \<and> \<not> isl (GetBalanceTool_execute w address)
   \<and> \<not> isl (VerifyAgentTool_execute w wallet)
   \<and> \<not> isl (LookupAgentTool_execute w wallet)
   \<and> \<not> isl (GetTrustScoreTool_execute w wallet)
   \<and> \<not> isl (RegisterAgentTool_execute w wallet name d)"
  using balance_failure [of w address] balance_rpc_error [of w address body kvs]
    verify_failure [of w wallet] lookup_failure [of w wallet] lookup_ok [of w wallet profile]
    trust_failure [of w wallet] trust_ok [of w wallet trust]
    register_failure [of w wallet name d] identity_failure [of w h workspace]
    never_raises [of w]
  by blast

theorem C1_failures_become_error_documents_witness:
  \<open>returns_error_document offline (GetBalanceTool_execute offline ''4Nd1mYvQ'')
   \<and> returns_error_document html_reply (GetBalanceTool_execute html_reply ''4Nd1mYvQ'')
   \<and> reply_raises empty_result_reply (balance_request empty_result_reply ''4Nd1mYvQ'')
        (balance_reply empty_result_reply ''4Nd1mYvQ'')
   \<and> returns_error_document empty_result_reply
        (GetBalanceTool_execute empty_result_reply ''4Nd1mYvQ'')
   \<and> GetBalanceTool_execute empty_result_reply ''4Nd1mYvQ'' =
        Inr (Dumps (JDict [(''error'', JStr (quoted ''value''))]))
   \<and> returns_error_document rpc_error_reply (GetBalanceTool_execute rpc_error_reply ''4Nd1mYvQ'')
   \<and> returns_error_document offline (VerifyAgentTool_execute offline ''W1'')
   \<and> result_field ''verified'' (VerifyAgentTool_execute html_reply ''W1'') = Some (JBool False)
   \<and> reply_raises array_reply (agents_request ''W1'') (verify_reply ''W1'')
   \<and> returns_error_document array_reply (VerifyAgentTool_execute array_reply ''W1'')
   \<and> returns_error_document registry_404 (LookupAgentTool_execute registry_404 ''W1'')
   \<and> LookupAgentTool_execute html_reply ''W1'' = Inr (Raw ''<html>502 Bad Gateway</html>'')
   \<and> returns_error_document offline (GetTrustScoreTool_execute offline ''W1'')
   \<and> GetTrustScoreTool_execute html_reply ''W1'' = Inr (Raw ''<html>502 Bad Gateway</html>'')
   \<and> returns_error_document html_reply (RegisterAgentTool_execute html_reply ''W1'' ''Bot1'' None)
   \<and> result_field ''success'' (RegisterAgentTool_execute offline ''W1'' ''Bot1'' None)
        = Some (JBool False)
   \<and> reply_raises array_reply (register_request ''W1'' ''Bot1'' None) register_reply
   \<and> returns_error_document array_reply (RegisterAgentTool_execute array_reply ''W1'' ''Bot1'' None)
   \<and> returns_error_document offline (GetMyIdentityTool_execute offline [''/'', ''srv'', ''bot''])\<close>
  using
    C1_failures_become_error_documents [of offline "''4Nd1mYvQ''" _ _ "''W1''" _ _ "''Bot1''"
      None "[''/'', ''home'', ''bot'']" "[''/'', ''srv'', ''bot'']"]
    C1_failures_become_error_documents [of html_reply "''4Nd1mYvQ''" _ _ "''W1''"
      "''<html>502 Bad Gateway</html>''" "''<html>502 Bad Gateway</html>''" "''Bot1''" None]
    C1_failures_become_error_documents [of registry_404 "''4Nd1mYvQ''" _ _ "''W1''" _ _
      "''Bot1''" None]
    C1_failures_become_error_documents [of array_reply "''4Nd1mYvQ''" _ _ "''W1''" _ _
      "''Bot1''" None]
    C1_failures_become_error_documents [of empty_result_reply "''4Nd1mYvQ''"]
    C1_failures_become_error_documents [of rpc_error_reply "''4Nd1mYvQ''"
      \<open>''{"jsonrpc":"2.0","error":{"code":-32602,"message":"Invalid param"},"id":1}''\<close>
      "[(''jsonrpc'', JStr ''2.0''),
        (''error'', JDict [(''code'', JInt (- 32602)), (''message'', JStr ''Invalid param'')]),
        (''id'', JInt 1)]"]
  by (simp add: request_fails_def reply_malformed_def reply_raises_def offline_def
      html_reply_def registry_404_def array_reply_def empty_result_reply_def
      rpc_error_reply_def readable_content_def identity_paths_def exists_answers_def
      List.map_filter_simps balance_reply_def verify_reply_def register_reply_def
      GetBalanceTool_execute_def loads_def error_json_def quoted_def)

text \<open>
  Claim C1 as stated, for every tool and a malformed JSON response, fails for profile
  lookup and trust lookup: they never parse the body, and return one that is not JSON as
  it came, which is no JSON document and has no \<^verbatim>\<open>error\<close> field.
\<close>

theorem C1_failures_become_error_documents_counterexample:
  "urlopen html_reply (agents_request ''W1'') = Inr ''<html>502 Bad Gateway</html>''
   \<and> reply_malformed html_reply (agents_request ''W1'')
   \<and> LookupAgentTool_execute html_reply ''W1'' = Inr (Raw ''<html>502 Bad Gateway</html>'')
   \<and> \<not> returns_error_document html_reply (LookupAgentTool_execute html_reply ''W1'')
   \<and> reply_malformed html_reply (trust_request ''W1'')
   \<and> GetTrustScoreTool_execute html_reply ''W1'' = Inr (Raw ''<html>502 Bad Gateway</html>'')
   \<and> \<not> returns_error_document html_reply (GetTrustScoreTool_execute html_reply ''W1'')"
  by (simp add: LookupAgentTool_execute_def GetTrustScoreTool_execute_def reply_malformed_def
      returns_error_document_def error_document_def html_reply_def offline_def)

end
